theory Spec2Isabelle
  imports Main
begin

section \<open>Python values and library functions used by the program\<close>

text \<open>
  Exceptions are values.  Only subclasses of \<open>Exception\<close> are modelled (the program's
  handlers are all \<open>except Exception\<close>); \<open>Raised\<close> stands for any exception class that a
  library call outside this program raises (socket errors, SMTP errors, file errors,
  encoding errors).  The message of a \<open>ValueError\<close> is either a text of the program or
  the message that \<open>int\<close> makes for the text it was given.
\<close>

datatype error_text = Text string | Int_message string

datatype py_exception =
    ValueError error_text
  | AttributeError string
  | TypeError string
  | Raised string

subsection \<open>\<open>int(str)\<close>\<close>

text \<open>
  A Python string is kept as the bytes of its UTF-8 encoding.  \<open>utf8_dec\<close> reads the
  code points back: \<open>need\<close> is the number of continuation bytes still expected, \<open>acc\<close>
  the bits read so far and \<open>lo\<close> the least code point that the sequence may encode.
  Bytes that are not UTF-8 (overlong forms, surrogates, stray bytes) give \<open>None\<close>; in
  Python they are lone surrogates of the string, which \<open>int\<close> rejects.
\<close>

fun utf8_dec :: "nat \<Rightarrow> nat \<Rightarrow> nat \<Rightarrow> string \<Rightarrow> nat list option" where
  "utf8_dec need acc lo [] = (if need = 0 then Some [] else None)"
| "utf8_dec need acc lo (b # bs) =
     (let n = (of_char b :: nat) in
      if need = 0 then
        (if n < 128 then map_option ((#) n) (utf8_dec 0 0 0 bs)
         else if 192 \<le> n \<and> n < 224 then utf8_dec 1 (n - 192) 128 bs
         else if 224 \<le> n \<and> n < 240 then utf8_dec 2 (n - 224) 2048 bs
         else if 240 \<le> n \<and> n < 248 then utf8_dec 3 (n - 240) 65536 bs
         else None)
      else if 128 \<le> n \<and> n < 192 then
        (if need = 1 then
           (if lo \<le> acc * 64 + (n - 128) \<and> acc * 64 + (n - 128) \<le> 1114111
               \<and> \<not> (55296 \<le> acc * 64 + (n - 128) \<and> acc * 64 + (n - 128) \<le> 57343)
            then map_option ((#) (acc * 64 + (n - 128))) (utf8_dec 0 0 0 bs)
            else None)
         else utf8_dec (need - 1) (acc * 64 + (n - 128)) lo bs)
      else None)"

text \<open>
  \<open>int(s)\<close> first turns every character beyond ASCII into ASCII: a Unicode space
  becomes a blank, a Unicode decimal digit becomes the ASCII digit of its value, and any
  other character makes the literal invalid.  The tables are those of Unicode 14.0
  (Python 3.11): the spaces beyond ASCII, and the code point of the digit zero of each
  of the 65 runs of ten decimal digits beyond ASCII.  ASCII characters stay as they are.
\<close>

definition unicode_space :: "nat \<Rightarrow> bool" where
  "unicode_space cp =
     (cp \<in> set [133, 160, 5760, 8232, 8233, 8239, 8287, 12288] \<or> (8192 \<le> cp \<and> cp \<le> 8202))"

definition decimal_zeros :: "nat list" where
  "decimal_zeros =
     [1632, 1776, 1984, 2406, 2534, 2662, 2790, 2918, 3046, 3174, 3302, 3430, 3558, 3664,
      3792, 3872, 4160, 4240, 6112, 6160, 6470, 6608, 6784, 6800, 6992, 7088, 7232, 7248,
      42528, 43216, 43264, 43472, 43504, 43600, 44016, 65296, 66720, 68912, 69734, 69872,
      69942, 70096, 70384, 70736, 70864, 71248, 71360, 71472, 71904, 72016, 72784, 73040,
      73120, 92768, 92864, 93008, 120782, 120792, 120802, 120812, 120822, 123200, 123632,
      125264, 130032]"

definition unicode_decimal :: "nat \<Rightarrow> nat option" where
  "unicode_decimal cp =
     (case filter (\<lambda>z. z \<le> cp \<and> cp < z + 10) decimal_zeros of
        [] \<Rightarrow> None
      | z # zs \<Rightarrow> Some (cp - z))"

fun to_ascii :: "nat list \<Rightarrow> nat list option" where
  "to_ascii [] = Some []"
| "to_ascii (cp # cps) =
     (if cp < 128 then map_option ((#) cp) (to_ascii cps)
      else if unicode_space cp then map_option ((#) 32) (to_ascii cps)
      else (case unicode_decimal cp of
              None \<Rightarrow> None
            | Some d \<Rightarrow> map_option ((#) (48 + d)) (to_ascii cps)))"

text \<open>
  Then the ASCII text is read: the whitespace around it is dropped (tab, line feed,
  vertical tab, form feed, carriage return, blank; not the separators 28 to 31), one
  sign may come first, then decimal digits, where single underscores may stand between
  two digits.  Anything else raises \<open>ValueError\<close>, as does a literal of more than 4300
  digits, leading zeros counted (the interpreter's default limit).
\<close>

definition py_isspace :: "nat \<Rightarrow> bool" where
  "py_isspace c = (c \<in> set [9, 10, 11, 12, 13, 32])"

definition py_strip :: "nat list \<Rightarrow> nat list" where
  "py_strip s = rev (dropWhile py_isspace (rev (dropWhile py_isspace s)))"

definition is_digit :: "nat \<Rightarrow> bool" where
  "is_digit c = (48 \<le> c \<and> c \<le> 57)"

definition digit_val :: "nat \<Rightarrow> int" where
  "digit_val c = int c - 48"

fun int_digits :: "int \<Rightarrow> nat list \<Rightarrow> int option" where
  "int_digits acc [] = Some acc"
| "int_digits acc [c] = (if is_digit c then Some (acc * 10 + digit_val c) else None)"
| "int_digits acc (c # d # ds) =
     (if is_digit c then int_digits (acc * 10 + digit_val c) (d # ds)
      else if c = 95 \<and> is_digit d then int_digits (acc * 10 + digit_val d) ds
      else None)"

definition ascii_int :: "nat list \<Rightarrow> int option" where
  "ascii_int s =
     (case py_strip s of
        [] \<Rightarrow> None
      | c # cs \<Rightarrow>
          (let sgn = (if c = 45 then - 1 else 1);
               body = (if c = 45 \<or> c = 43 then cs else c # cs)
           in case body of
                [] \<Rightarrow> None
              | d # ds \<Rightarrow>
                  if is_digit d \<and> length (filter is_digit body) \<le> 4300
                  then map_option (\<lambda>v. sgn * v) (int_digits (digit_val d) ds)
                  else None))"

definition py_int :: "string \<Rightarrow> int option" where
  "py_int s =
     (case utf8_dec 0 0 0 s of
        None \<Rightarrow> None
      | Some cps \<Rightarrow> (case to_ascii cps of None \<Rightarrow> None | Some a \<Rightarrow> ascii_int a))"

section \<open>The configuration: class \<open>EmailConfig\<close>\<close>

text \<open>
  The process environment, as \<open>os.getenv\<close> sees it once \<open>load_dotenv()\<close> has run, is a
  finite map from names to values.  An unset variable is \<open>None\<close>.
\<close>

type_synonym environ = "string \<rightharpoonup> string"

definition getenv :: "environ \<Rightarrow> string \<Rightarrow> string \<Rightarrow> string" where
  "getenv env key dflt = (case env key of None \<Rightarrow> dflt | Some v \<Rightarrow> v)"

record EmailConfig =
  smtp_server :: string
  smtp_port :: int
  email :: string
  password :: string

text \<open>Truth value of an optional string: \<open>None\<close> and the empty string are false.\<close>

definition truthy_str :: "string option \<Rightarrow> bool" where
  "truthy_str v = (case v of None \<Rightarrow> False | Some s \<Rightarrow> s \<noteq> [])"

text \<open>The message of the \<open>ValueError\<close> that the constructor raises, as UTF-8 bytes.\<close>

definition config_error_message :: string where
  "config_error_message = map char_of
     [232, 175, 183, 229, 156, 168, 46, 101, 110, 118, 230, 150, 135, 228, 187, 182, 228,
      184, 173, 232, 174, 190, 231, 189, 174, 69, 77, 65, 73, 76, 229, 146, 140, 69, 77, 65,
      73, 76, 95, 80, 65, 83, 83, 87, 79, 82, 68 :: nat]"

text \<open>
  The port is converted before account and credential are looked at, so a port that
  \<open>int\<close> rejects raises first.
\<close>

definition EmailConfig_init :: "environ \<Rightarrow> py_exception + EmailConfig" where
  "EmailConfig_init env =
     (let server = getenv env ''SMTP_SERVER'' ''smtp.qq.com'' in
      case py_int (getenv env ''SMTP_PORT'' ''465'') of
        None \<Rightarrow> Inl (ValueError (Int_message (getenv env ''SMTP_PORT'' ''465'')))
      | Some port \<Rightarrow>
          (let em = env ''EMAIL''; pw = env ''EMAIL_PASSWORD'' in
           if \<not> (truthy_str em \<and> truthy_str pw)
           then Inl (ValueError (Text config_error_message))
           else Inr \<lparr>smtp_server = server, smtp_port = port,
                     email = the em, password = the pw\<rparr>))"

section \<open>The world outside the program\<close>

subsection \<open>Log records\<close>

text \<open>
  Each call of a \<open>logger\<close> method appends one record: the level and which of the
  program's messages it is, with the values formatted into it.
\<close>

datatype level = DEBUG | INFO | WARNING | ERROR

datatype log_message =
    Connected
  | Connect_failed int py_exception
  | Sent_to "string list"
  | Send_failed int py_exception
  | Send_error py_exception
  | Attachment_missing string
  | Attachment_added string
  | Attachment_error py_exception
  | Connection_closed
  | Close_error py_exception
  | Main_success
  | Main_failure
  | Main_error py_exception

subsection \<open>Events\<close>

text \<open>
  The trace lists, in order, every call the program makes to the SMTP library and to
  \<open>time.sleep\<close>.  A client object is named by the length of the trace at the moment
  \<open>smtplib.SMTP_SSL\<close> was called for it.  \<open>Close_called\<close> marks each entry into
  \<open>EmailSender.close\<close>; it is bookkeeping, so that invocations can be counted.
\<close>

datatype event =
    SMTP_SSL string int
  | Login nat string string
  | Sendmail nat string "string list" string
  | Quit nat
  | Sleep int
  | Close_called

subsection \<open>MIME objects\<close>

type_synonym header = "string \<times> string \<times> (string \<times> string) list"

datatype mime_part =
  Part (maintype: string) (subtype: string) (charset: "string option")
       (payload: string) (part_headers: "header list")

text \<open>
  A message is an object: \<open>ident\<close> is its identity, given when it is made.
\<close>

record mime_message =
  ident :: nat
  headers :: "(string \<times> string) list"
  parts :: "mime_part list"

datatype file_state = Missing | Unreadable py_exception | Content string

subsection \<open>What the libraries and the operating system answer\<close>

text \<open>
  Everything the program cannot decide itself is a parameter:
  \<^item> \<open>smtp_raises\<close>: given the trace whose last event is the SMTP call being made, the
    exception that call raises, if any (so the answer may depend on the whole history);
  \<^item> \<open>file_at\<close>: whether a path exists, and whether opening and reading it succeeds;
  \<^item> \<open>what_image\<close>: the image subtype \<open>MIMEImage\<close> guesses from the data, if any;
  \<^item> \<open>text_encodable\<close>: whether \<open>MIMEText\<close> can encode a text in UTF-8 (it raises
    \<open>UnicodeEncodeError\<close> on a lone surrogate such as U+D800);
  \<^item> \<open>header_encodable\<close>: whether a parameter value of a header can be encoded
    (\<open>add_header\<close> raises \<open>UnicodeEncodeError\<close> on a lone surrogate);
  \<^item> \<open>as_string\<close>: the serialisation of a message object, or the exception it raises.
    The library draws the boundary of a multipart message at random, once for each message
    object, and keeps it in the object: the text depends on which object is serialised
    (on \<open>ident\<close>), not on headers and parts alone, and is the same each time the same
    object is serialised;
  \<^item> \<open>path_name\<close>: the final component of a path (\<open>Path(p).name\<close>), which depends
    on the platform's separators.
\<close>

record outside =
  smtp_raises :: "event list \<Rightarrow> py_exception option"
  file_at :: "string \<Rightarrow> file_state"
  what_image :: "string \<Rightarrow> string option"
  text_encodable :: "string \<Rightarrow> bool"
  header_encodable :: "string \<Rightarrow> bool"
  as_string :: "mime_message \<Rightarrow> py_exception + string"
  path_name :: "string \<Rightarrow> string"

subsection \<open>The mutable state\<close>

text \<open>
  Python lists are objects: \<open>heap\<close> maps the address of a list to its elements, and
  \<open>next_ref\<close> is the next unused address.  A new message object takes its identity from
  \<open>next_ref\<close> as well.
\<close>

record world =
  heap :: "nat \<Rightarrow> string list"
  next_ref :: nat
  log :: "(level \<times> log_message) list"
  trace :: "event list"

definition logger :: "level \<Rightarrow> log_message \<Rightarrow> world \<Rightarrow> world" where
  "logger lv m st = st\<lparr>log := log st @ [(lv, m)]\<rparr>"

definition emit :: "event \<Rightarrow> world \<Rightarrow> world" where
  "emit e st = st\<lparr>trace := trace st @ [e]\<rparr>"

definition sleep :: "int \<Rightarrow> world \<Rightarrow> world" where
  "sleep d st = emit (Sleep d) st"

definition call_smtp :: "outside \<Rightarrow> event \<Rightarrow> world \<Rightarrow> py_exception option \<times> world" where
  "call_smtp w e st = (let st1 = emit e st in (smtp_raises w (trace st1), st1))"

definition new_object :: "world \<Rightarrow> nat \<times> world" where
  "new_object st = (next_ref st, st\<lparr>next_ref := next_ref st + 1\<rparr>)"

definition alloc :: "string list \<Rightarrow> world \<Rightarrow> nat \<times> world" where
  "alloc xs st =
     (next_ref st, st\<lparr>heap := (heap st)(next_ref st := xs), next_ref := next_ref st + 1\<rparr>)"

section \<open>The sender: class \<open>EmailSender\<close>\<close>

record EmailSender =
  config :: EmailConfig
  smtp_client :: "nat option"
  max_retries :: int
  retry_delay :: int

definition EmailSender_init :: "EmailConfig \<Rightarrow> EmailSender" where
  "EmailSender_init cfg =
     \<lparr>config = cfg, smtp_client = None, max_retries = 3, retry_delay = 2\<rparr>"

subsection \<open>\<open>connect\<close>\<close>

text \<open>
  The body of the \<open>try\<close> in \<open>connect\<close>: \<open>Some e\<close> when an exception \<open>e\<close> leaves it,
  \<open>None\<close> when it reaches \<open>return True\<close>.  \<open>self.smtp_client\<close> is assigned as soon as
  the constructor \<open>SMTP_SSL\<close> has returned, before \<open>login\<close> is called.
\<close>

definition connect_try ::
  "outside \<Rightarrow> EmailSender \<Rightarrow> world \<Rightarrow> py_exception option \<times> EmailSender \<times> world" where
  "connect_try w s st =
     (let c = length (trace st) in
      case call_smtp w (SMTP_SSL (smtp_server (config s)) (smtp_port (config s))) st of
        (Some e, st1) \<Rightarrow> (Some e, s, st1)
      | (None, st1) \<Rightarrow>
          (let s1 = s\<lparr>smtp_client := Some c\<rparr> in
           case call_smtp w (Login c (email (config s1)) (password (config s1))) st1 of
             (Some e, st2) \<Rightarrow> (Some e, s1, st2)
           | (None, st2) \<Rightarrow> (None, s1, logger INFO Connected st2)))"

text \<open>
  The loop \<open>for attempt in range(self.max_retries)\<close>: \<open>n\<close> is the bound, read once when
  the loop starts.  Falling out of the loop returns \<open>None\<close>.
\<close>

function connect_loop ::
  "outside \<Rightarrow> int \<Rightarrow> int \<Rightarrow> EmailSender \<Rightarrow> world \<Rightarrow> bool option \<times> EmailSender \<times> world" where
  "connect_loop w n attempt s st =
     (if attempt < n then
        (case connect_try w s st of
           (None, s1, st1) \<Rightarrow> (Some True, s1, st1)
         | (Some e, s1, st1) \<Rightarrow>
             (let st2 = logger ERROR (Connect_failed (attempt + 1) e) st1 in
              if attempt < max_retries s1 - 1
              then connect_loop w n (attempt + 1) s1 (sleep (retry_delay s1) st2)
              else (Some False, s1, st2)))
      else (None, s, st))"
  by pat_completeness auto
termination
  by (relation "measure (\<lambda>(w, n, attempt, s, st). nat (n - attempt))") auto

definition connect :: "outside \<Rightarrow> EmailSender \<Rightarrow> world \<Rightarrow> bool option \<times> EmailSender \<times> world" where
  "connect w s st = connect_loop w (max_retries s) 0 s st"

subsection \<open>\<open>close\<close>\<close>

definition close_try :: "outside \<Rightarrow> nat \<Rightarrow> world \<Rightarrow> (py_exception + unit) \<times> world" where
  "close_try w c st =
     (case call_smtp w (Quit c) st of
        (Some e, st1) \<Rightarrow> (Inl e, st1)
      | (None, st1) \<Rightarrow> (Inr (), logger INFO Connection_closed st1))"

definition close :: "outside \<Rightarrow> EmailSender \<Rightarrow> world \<Rightarrow> (py_exception + unit) \<times> world" where
  "close w s st =
     (let st0 = emit Close_called st in
      case smtp_client s of
        None \<Rightarrow> (Inr (), st0)
      | Some c \<Rightarrow>
          (case close_try w c st0 of
             (Inl e, st1) \<Rightarrow> (Inr (), logger ERROR (Close_error e) st1)
           | (Inr u, st1) \<Rightarrow> (Inr u, st1)))"

subsection \<open>Strings and paths\<close>

text \<open>\<open>sep.join(xs)\<close>.\<close>

fun join :: "string \<Rightarrow> string list \<Rightarrow> string" where
  "join sep [] = []"
| "join sep [x] = x"
| "join sep (x # y # ys) = x @ sep @ join sep (y # ys)"

text \<open>\<open>str.lower()\<close> on the ASCII letters, which is all the suffix test can see.\<close>

definition lower_char :: "char \<Rightarrow> char" where
  "lower_char c =
     (if 65 \<le> (of_char c :: nat) \<and> (of_char c :: nat) \<le> 90
      then char_of ((of_char c :: nat) + 32) else c)"

definition lower :: "string \<Rightarrow> string" where
  "lower s = map lower_char s"

text \<open>
  \<open>str.rfind('.')\<close>, and \<open>Path.suffix\<close> as \<open>pathlib\<close> defines it from the name: the
  part from the last dot on, unless that dot is the first or the last character.
\<close>

definition rfind_dot :: "string \<Rightarrow> nat option" where
  "rfind_dot name =
     (let k = length (takeWhile (\<lambda>c. c \<noteq> CHR ''.'') (rev name)) in
      if k = length name then None else Some (length name - 1 - k))"

definition suffix_of_name :: "string \<Rightarrow> string" where
  "suffix_of_name name =
     (case rfind_dot name of
        None \<Rightarrow> []
      | Some i \<Rightarrow> if 0 < i \<and> i + 1 < length name then drop i name else [])"

definition path_suffix :: "outside \<Rightarrow> string \<Rightarrow> string" where
  "path_suffix w p = suffix_of_name (path_name w p)"

subsection \<open>Building MIME objects\<close>

definition MIMEMultipart :: "string \<Rightarrow> nat \<Rightarrow> mime_message" where
  "MIMEMultipart st i =
     \<lparr>ident = i,
      headers = [(''Content-Type'', ''multipart/'' @ st), (''MIME-Version'', ''1.0'')],
      parts = []\<rparr>"

definition set_header :: "mime_message \<Rightarrow> string \<Rightarrow> string \<Rightarrow> mime_message" where
  "set_header m k v = m\<lparr>headers := headers m @ [(k, v)]\<rparr>"

definition attach :: "mime_message \<Rightarrow> mime_part \<Rightarrow> mime_message" where
  "attach m p = m\<lparr>parts := parts m @ [p]\<rparr>"

definition MIMEText :: "outside \<Rightarrow> string \<Rightarrow> string \<Rightarrow> string \<Rightarrow> py_exception + mime_part" where
  "MIMEText w text st cs =
     (if text_encodable w text then Inr (Part ''text'' st (Some cs) text [])
      else Inl (Raised ''UnicodeEncodeError''))"

definition MIMEImage :: "outside \<Rightarrow> string \<Rightarrow> py_exception + mime_part" where
  "MIMEImage w data =
     (case what_image w data of
        None \<Rightarrow> Inl (TypeError ''Could not guess image MIME subtype'')
      | Some st \<Rightarrow> Inr (Part ''image'' st None data []))"

definition MIMEApplication :: "string \<Rightarrow> mime_part" where
  "MIMEApplication data = Part ''application'' ''octet-stream'' None data []"

text \<open>\<open>add_header\<close> encodes the values of the parameters, which may raise.\<close>

definition add_header ::
  "outside \<Rightarrow> mime_part \<Rightarrow> string \<Rightarrow> string \<Rightarrow> (string \<times> string) list
     \<Rightarrow> py_exception + mime_part" where
  "add_header w p k v params =
     (if list_all (\<lambda>(name, val). header_encodable w val) params
      then Inr (Part (maintype p) (subtype p) (charset p) (payload p)
                  (part_headers p @ [(k, v, params)]))
      else Inl (Raised ''UnicodeEncodeError''))"

subsection \<open>\<open>_add_attachment\<close>\<close>

definition image_suffixes :: "string list" where
  "image_suffixes = [''.jpg'', ''.jpeg'', ''.png'', ''.gif'']"

text \<open>The body of the \<open>try\<close>: \<open>Inl e\<close> when the exception \<open>e\<close> leaves it.\<close>

definition add_attachment_try ::
  "outside \<Rightarrow> mime_message \<Rightarrow> string \<Rightarrow> world \<Rightarrow> (py_exception + unit) \<times> mime_message \<times> world" where
  "add_attachment_try w message file_path st =
     (case file_at w file_path of
        Missing \<Rightarrow> (Inr (), message, logger WARNING (Attachment_missing file_path) st)
      | Unreadable e \<Rightarrow> (Inl e, message, st)
      | Content file_content \<Rightarrow>
          (case (if lower (path_suffix w file_path) \<in> set image_suffixes
                 then MIMEImage w file_content
                 else Inr (MIMEApplication file_content)) of
             Inl e \<Rightarrow> (Inl e, message, st)
           | Inr attachment \<Rightarrow>
               (case add_header w attachment ''Content-Disposition'' ''attachment''
                       [(''filename'', path_name w file_path)] of
                  Inl e \<Rightarrow> (Inl e, message, st)
                | Inr attachment1 \<Rightarrow>
                    (Inr (), attach message attachment1,
                     logger DEBUG (Attachment_added (path_name w file_path)) st))))"

definition add_attachment ::
  "outside \<Rightarrow> mime_message \<Rightarrow> string \<Rightarrow> world \<Rightarrow> mime_message \<times> world" where
  "add_attachment w message file_path st =
     (case add_attachment_try w message file_path st of
        (Inl e, m, st1) \<Rightarrow> (m, logger ERROR (Attachment_error e) st1)
      | (Inr u, m, st1) \<Rightarrow> (m, st1))"

text \<open>The loop \<open>for attachment_path in attachments\<close>.\<close>

fun add_attachments ::
  "outside \<Rightarrow> mime_message \<Rightarrow> string list \<Rightarrow> world \<Rightarrow> mime_message \<times> world" where
  "add_attachments w message [] st = (message, st)"
| "add_attachments w message (p # ps) st =
     (case add_attachment w message p st of (m1, st1) \<Rightarrow> add_attachments w m1 ps st1)"

subsection \<open>\<open>send_email\<close>\<close>

text \<open>
  The argument \<open>receiver\<close> is a string or (the address of) a list.  The local variable
  \<open>receivers\<close> is then a list made on the spot, \<open>[receiver]\<close>, or the caller's own list.
  \<open>cc\<close> and \<open>bcc\<close> are \<open>None\<close> or the address of a list.
\<close>

datatype receiver = Str string | Lst nat

datatype receivers_var = Fresh "string list" | Shared nat

definition receivers_value :: "receivers_var \<Rightarrow> world \<Rightarrow> string list" where
  "receivers_value rv st = (case rv of Fresh xs \<Rightarrow> xs | Shared r \<Rightarrow> heap st r)"

definition extend :: "receivers_var \<Rightarrow> string list \<Rightarrow> world \<Rightarrow> receivers_var \<times> world" where
  "extend rv ys st =
     (case rv of
        Fresh xs \<Rightarrow> (Fresh (xs @ ys), st)
      | Shared r \<Rightarrow> (Shared r, st\<lparr>heap := (heap st)(r := heap st r @ ys)\<rparr>))"

definition truthy_list :: "nat option \<Rightarrow> world \<Rightarrow> bool" where
  "truthy_list v st = (case v of None \<Rightarrow> False | Some a \<Rightarrow> heap st a \<noteq> [])"

text \<open>
  The body of the inner \<open>try\<close>: the attribute \<open>self.smtp_client.sendmail\<close> is looked
  up first, then the arguments are evaluated (\<open>message.as_string()\<close> last), then the call
  is made.  \<open>None\<close> means that \<open>return True\<close> was reached.
\<close>

definition send_try ::
  "outside \<Rightarrow> EmailSender \<Rightarrow> receivers_var \<Rightarrow> mime_message \<Rightarrow> world \<Rightarrow> py_exception option \<times> world" where
  "send_try w s receivers message st =
     (case smtp_client s of
        None \<Rightarrow> (Some (AttributeError ''NoneType object has no attribute sendmail''), st)
      | Some c \<Rightarrow>
          (case as_string w message of
             Inl e \<Rightarrow> (Some e, st)
           | Inr txt \<Rightarrow>
               (case call_smtp w
                       (Sendmail c (email (config s)) (receivers_value receivers st) txt) st of
                  (Some e, st1) \<Rightarrow> (Some e, st1)
                | (None, st1) \<Rightarrow>
                    (None, logger INFO (Sent_to (receivers_value receivers st1)) st1))))"

function send_loop ::
  "outside \<Rightarrow> int \<Rightarrow> int \<Rightarrow> EmailSender \<Rightarrow> receivers_var \<Rightarrow> mime_message \<Rightarrow> world
     \<Rightarrow> bool option \<times> world" where
  "send_loop w n attempt s receivers message st =
     (if attempt < n then
        (case send_try w s receivers message st of
           (None, st1) \<Rightarrow> (Some True, st1)
         | (Some e, st1) \<Rightarrow>
             (let st2 = logger ERROR (Send_failed (attempt + 1) e) st1 in
              if attempt < max_retries s - 1
              then send_loop w n (attempt + 1) s receivers message (sleep (retry_delay s) st2)
              else (Some False, st2)))
      else (None, st))"
  by pat_completeness auto
termination
  by (relation "measure (\<lambda>(w, n, attempt, s, receivers, message, st). nat (n - attempt))") auto

text \<open>
  The body of the outer \<open>try\<close>, in two stages.  The first stage is the statements up
  to the last \<open>extend\<close>: it makes the container (a new message object) with its
  headers, fixes the recipient list and, when \<open>receiver\<close> is a list, changes that list
  on the heap.  No statement of
  this stage raises on arguments of the declared types.
\<close>

definition send_email_prepare ::
  "EmailSender \<Rightarrow> receiver \<Rightarrow> string \<Rightarrow> string \<Rightarrow> nat option \<Rightarrow> nat option \<Rightarrow> world
     \<Rightarrow> mime_message \<times> receivers_var \<times> world" where
  "send_email_prepare s receiver subject sender_name cc bcc st =
     (let (i, st0) = new_object st;
          message0 = MIMEMultipart ''alternative'' i;
          message1 = set_header message0 ''Subject'' subject;
          message2 = set_header message1 ''From''
            (if sender_name \<noteq> [] then sender_name @ ''<'' @ email (config s) @ ''>''
             else email (config s));
          receivers0 = (case receiver of Str a \<Rightarrow> Fresh [a] | Lst r \<Rightarrow> Shared r);
          message3 = set_header message2 ''To'' (join '', '' (receivers_value receivers0 st0));
          (message4, receivers1, st1) =
            (if truthy_list cc st0
             then (set_header message3 ''Cc'' (join '', '' (heap st0 (the cc))),
                   extend receivers0 (heap st0 (the cc)) st0)
             else (message3, receivers0, st0));
          (receivers2, st2) =
            (if truthy_list bcc st1 then extend receivers1 (heap st1 (the bcc)) st1
             else (receivers1, st1))
      in (message4, receivers2, st2))"

text \<open>
  The second stage is the rest: the text parts, the attachments, the retry loop around
  \<open>sendmail\<close>.  The state is returned also when an exception leaves the body: what was
  done before it stays done.
\<close>

definition send_email_deliver ::
  "outside \<Rightarrow> EmailSender \<Rightarrow> string \<Rightarrow> string list option \<Rightarrow> string option
     \<Rightarrow> mime_message \<Rightarrow> receivers_var \<Rightarrow> world \<Rightarrow> (py_exception + bool option) \<times> world" where
  "send_email_deliver w s content attachments html_content message4 receivers2 st2 =
     (case MIMEText w content ''plain'' ''utf-8'' of
        Inl e \<Rightarrow> (Inl e, st2)
      | Inr text_part \<Rightarrow>
          (let message5 = attach message4 text_part in
           case (if truthy_str html_content
                 then map_sum id (attach message5)
                        (MIMEText w (the html_content) ''html'' ''utf-8'')
                 else Inr message5) of
             Inl e \<Rightarrow> (Inl e, st2)
           | Inr message6 \<Rightarrow>
               (let (message7, st3) =
                      (case attachments of
                         None \<Rightarrow> (message6, st2)
                       | Some paths \<Rightarrow>
                           if paths \<noteq> [] then add_attachments w message6 paths st2
                           else (message6, st2))
                in case send_loop w (max_retries s) 0 s receivers2 message7 st3 of
                     (r, st4) \<Rightarrow> (Inr r, st4))))"

definition send_email_try ::
  "outside \<Rightarrow> EmailSender \<Rightarrow> receiver \<Rightarrow> string \<Rightarrow> string \<Rightarrow> string list option
     \<Rightarrow> string option \<Rightarrow> string \<Rightarrow> string \<Rightarrow> nat option \<Rightarrow> nat option \<Rightarrow> world
     \<Rightarrow> (py_exception + bool option) \<times> world" where
  "send_email_try w s receiver subject content attachments html_content sender_name
       receiver_name cc bcc st =
     (case send_email_prepare s receiver subject sender_name cc bcc st of
        (message4, receivers2, st2) \<Rightarrow>
          send_email_deliver w s content attachments html_content message4 receivers2 st2)"

text \<open>The handler of the outer \<open>try\<close> logs the exception and returns \<open>False\<close>.\<close>

definition send_email ::
  "outside \<Rightarrow> EmailSender \<Rightarrow> receiver \<Rightarrow> string \<Rightarrow> string \<Rightarrow> string list option
     \<Rightarrow> string option \<Rightarrow> string \<Rightarrow> string \<Rightarrow> nat option \<Rightarrow> nat option \<Rightarrow> world
     \<Rightarrow> (py_exception + bool option) \<times> world" where
  "send_email w s receiver subject content attachments html_content sender_name
       receiver_name cc bcc st =
     (case send_email_try w s receiver subject content attachments html_content sender_name
             receiver_name cc bcc st of
        (Inl e, st1) \<Rightarrow> (Inr (Some False), logger ERROR (Send_error e) st1)
      | (Inr r, st1) \<Rightarrow> (Inr r, st1))"

subsection \<open>The context manager\<close>

text \<open>
  \<open>__enter__\<close> calls \<open>connect\<close>, drops its result and returns \<open>self\<close>; \<open>__exit__\<close>
  calls \<open>close\<close> and returns \<open>None\<close>.
\<close>

definition EmailSender_enter ::
  "outside \<Rightarrow> EmailSender \<Rightarrow> world \<Rightarrow> (py_exception + EmailSender) \<times> world" where
  "EmailSender_enter w s st = (case connect w s st of (r, s1, st1) \<Rightarrow> (Inr s1, st1))"

definition EmailSender_exit ::
  "outside \<Rightarrow> EmailSender \<Rightarrow> py_exception option \<Rightarrow> world \<Rightarrow> (py_exception + unit) \<times> world" where
  "EmailSender_exit w s exc st = close w s st"

text \<open>
  The statement \<open>with EmailSender(config) as sender: body\<close>.  If \<open>__enter__\<close> raises,
  \<open>__exit__\<close> is not called.  Otherwise the body runs and \<open>__exit__\<close> is called whether
  the body raised or not; as \<open>__exit__\<close> returns \<open>None\<close>, an exception of the body goes
  on, unless \<open>__exit__\<close> raises one itself.
\<close>

definition with_EmailSender ::
  "outside \<Rightarrow> EmailSender
     \<Rightarrow> (EmailSender \<Rightarrow> world \<Rightarrow> (py_exception + 'a) \<times> world)
     \<Rightarrow> world \<Rightarrow> (py_exception + 'a) \<times> world" where
  "with_EmailSender w s body st =
     (case EmailSender_enter w s st of
        (Inl e, st1) \<Rightarrow> (Inl e, st1)
      | (Inr sender, st1) \<Rightarrow>
          (case body sender st1 of
             (r, st2) \<Rightarrow>
               (case EmailSender_exit w sender
                       (case r of Inl e \<Rightarrow> Some e | Inr v \<Rightarrow> None) st2 of
                  (Inl e1, st3) \<Rightarrow> (Inl e1, st3)
                | (Inr u, st3) \<Rightarrow> (r, st3))))"

subsection \<open>\<open>main\<close>\<close>

text \<open>The string literals of \<open>main\<close> that are not ASCII, as UTF-8 bytes.\<close>

definition main_subject :: string where
  "main_subject = map char_of
     [231, 187, 147, 228, 184, 154, 232, 175, 129, 228, 185, 166 :: nat]"

definition main_content :: string where
  "main_content = map char_of
     [84, 111, 109, 239, 188, 140, 232, 191, 153, 230, 152, 175, 229, 164, 156, 230, 155, 178,
      231, 188, 150, 231, 168, 139, 231, 154, 132, 231, 187, 147, 228, 184, 154, 232, 175,
      129, 228, 185, 166, 239, 188, 140, 230, 156, 155, 230, 159, 165, 230, 148, 182, 126 :: nat]"

definition main_attachment :: string where
  "main_attachment = map char_of
     [68, 58, 92, 80, 121, 116, 104, 111, 110, 92, 80, 114, 97, 99, 116, 105, 99, 101, 115,
      92, 232, 135, 170, 229, 138, 168, 229, 143, 145, 233, 130, 174, 228, 187, 182, 92, 99,
      101, 114, 116, 105, 102, 105, 99, 97, 116, 101, 95, 116, 111, 109, 46, 112, 110, 103 :: nat]"

definition main_html_content :: string where
  "main_html_content = map char_of
     [60, 104, 49, 62, 230, 129, 173, 229, 150, 156, 229, 174, 140, 230, 136, 144, 232, 175,
      190, 231, 168, 139, 239, 188, 129, 60, 47, 104, 49, 62, 60, 112, 62, 232, 191, 153, 230,
      152, 175, 230, 130, 168, 231, 154, 132, 231, 187, 147, 228, 184, 154, 232, 175, 129,
      228, 185, 166, 239, 188, 140, 232, 175, 183, 230, 159, 165, 230, 148, 182, 227, 128,
      130, 60, 47, 112, 62 :: nat]"

definition main_sender_name :: string where
  "main_sender_name = map char_of
     [229, 164, 156, 230, 155, 178, 231, 188, 150, 231, 168, 139 :: nat]"

text \<open>The body of the \<open>with\<close> statement in \<open>main\<close>; the two list literals are new lists.\<close>

definition main_with_body :: "outside \<Rightarrow> EmailSender \<Rightarrow> world \<Rightarrow> (py_exception + unit) \<times> world" where
  "main_with_body w sender st =
     (case alloc [''dong.cheng@ythyjx.com''] st of
        (r, st1) \<Rightarrow>
          (case alloc [''support@ythyjx.com''] st1 of
             (c, st2) \<Rightarrow>
               (case send_email w sender (Lst r) main_subject main_content
                       (Some [main_attachment]) (Some main_html_content) main_sender_name
                       ''Tom'' (Some c) None st2 of
                  (Inl e, st3) \<Rightarrow> (Inl e, st3)
                | (Inr success, st3) \<Rightarrow>
                    (Inr (),
                     if success = Some True then logger INFO Main_success st3
                     else logger ERROR Main_failure st3))))"

definition main_try :: "outside \<Rightarrow> environ \<Rightarrow> world \<Rightarrow> (py_exception + unit) \<times> world" where
  "main_try w env st =
     (case EmailConfig_init env of
        Inl e \<Rightarrow> (Inl e, st)
      | Inr cfg \<Rightarrow> with_EmailSender w (EmailSender_init cfg) (main_with_body w) st)"

definition main :: "outside \<Rightarrow> environ \<Rightarrow> world \<Rightarrow> (py_exception + unit) \<times> world" where
  "main w env st =
     (case main_try w env st of
        (Inl e, st1) \<Rightarrow> (Inr (), logger ERROR (Main_error e) st1)
      | (Inr u, st1) \<Rightarrow> (Inr u, st1))"

section \<open>Notions used to state and prove the properties\<close>

text \<open>
  None of the definitions of this section models code of the program: they are projections
  of traces and logs, what an attempt to connect, an attachment and a message amount to
  when they are written from the answers of the libraries alone, without the state of the
  code, and the concrete values on which the theorems are tried.
\<close>

text \<open>The events that a call has added: what the later trace has beyond the earlier one.\<close>

definition new_events :: "world \<Rightarrow> world \<Rightarrow> event list" where
  "new_events st st1 = drop (length (trace st)) (trace st1)"

text \<open>How often \<open>close\<close> was entered in a list of events.\<close>

definition close_calls :: "event list \<Rightarrow> nat" where
  "close_calls evs = length (filter (\<lambda>e. e = Close_called) evs)"

text \<open>Worlds that differ in the log only.\<close>

definition same_but_log :: "world \<Rightarrow> world \<Rightarrow> bool" where
  "same_but_log st st1 = (heap st = heap st1 \<and> next_ref st = next_ref st1 \<and> trace st = trace st1)"

text \<open>
  An event is a call of \<open>sendmail\<close> on the sender's client, from the sender's account,
  to the given recipients, with the serialisation of the given message.
\<close>

definition is_sendmail_of :: "outside \<Rightarrow> EmailSender \<Rightarrow> string list \<Rightarrow> mime_message \<Rightarrow> event \<Rightarrow> bool" where
  "is_sendmail_of w s rcpts m e =
     (\<exists>c txt. e = Sendmail c (email (config s)) rcpts txt \<and> as_string w m = Inr txt
        \<and> smtp_client s = Some c)"

text \<open>
  The part that a path contributes to the message, if it contributes one: the file must
  be there and readable, and its name must be encodable in a header.  Then a file whose
  suffix, in lower case, is an image suffix gives an image part if the library can tell
  the image type from the data, and no part if it cannot; every other file gives a part
  of type \<open>application/octet-stream\<close>.  The part carries the data and the header
  \<open>Content-Disposition: attachment\<close> with the name of the file.
\<close>

definition attachment_part :: "outside \<Rightarrow> string \<Rightarrow> mime_part option" where
  "attachment_part w p =
     (case file_at w p of
        Content data \<Rightarrow>
          (if lower (path_suffix w p) \<in> set image_suffixes
           then (case what_image w data of
                   None \<Rightarrow> None
                 | Some t \<Rightarrow>
                     if header_encodable w (path_name w p)
                     then Some (Part ''image'' t None data
                            [(''Content-Disposition'', ''attachment'',
                              [(''filename'', path_name w p)])])
                     else None)
           else if header_encodable w (path_name w p)
                then Some (Part ''application'' ''octet-stream'' None data
                       [(''Content-Disposition'', ''attachment'',
                         [(''filename'', path_name w p)])])
                else None)
      | _ \<Rightarrow> None)"

text \<open>The elements of an optional list; an absent list has none.\<close>

definition list_at :: "nat option \<Rightarrow> world \<Rightarrow> string list" where
  "list_at v st = (case v of None \<Rightarrow> [] | Some a \<Rightarrow> heap st a)"

text \<open>The message with its body parts and attachments, which no state influences.\<close>

definition text_parts ::
  "outside \<Rightarrow> mime_message \<Rightarrow> string \<Rightarrow> string option \<Rightarrow> py_exception + mime_message" where
  "text_parts w m4 content html_content =
     (case MIMEText w content ''plain'' ''utf-8'' of
        Inl e \<Rightarrow> Inl e
      | Inr text_part \<Rightarrow>
          (if truthy_str html_content
           then map_sum id (attach (attach m4 text_part))
                  (MIMEText w (the html_content) ''html'' ''utf-8'')
           else Inr (attach m4 text_part)))"

definition full_message ::
  "outside \<Rightarrow> mime_message \<Rightarrow> string \<Rightarrow> string option \<Rightarrow> string list option
     \<Rightarrow> py_exception + mime_message" where
  "full_message w m4 content html_content attachments =
     (case text_parts w m4 content html_content of
        Inl e \<Rightarrow> Inl e
      | Inr m6 \<Rightarrow>
          Inr (m6\<lparr>parts := parts m6 @ List.map_filter (attachment_part w)
                              (case attachments of None \<Rightarrow> [] | Some ps \<Rightarrow> ps)\<rparr>))"



text \<open>
  One attempt to connect, told from the answers of the server alone.  On the trace \<open>tr\<close>
  the attempt calls \<open>SMTP_SSL\<close> and, if that did not raise, \<open>login\<close> on the new client
  (named \<open>length tr\<close>); it succeeds when neither call raises.
\<close>

definition attempt_events :: "outside \<Rightarrow> EmailConfig \<Rightarrow> event list \<Rightarrow> event list" where
  "attempt_events w cfg tr =
     (if smtp_raises w (tr @ [SMTP_SSL (smtp_server cfg) (smtp_port cfg)]) = None
      then [SMTP_SSL (smtp_server cfg) (smtp_port cfg),
            Login (length tr) (email cfg) (password cfg)]
      else [SMTP_SSL (smtp_server cfg) (smtp_port cfg)])"

definition attempt_succeeds :: "outside \<Rightarrow> EmailConfig \<Rightarrow> event list \<Rightarrow> bool" where
  "attempt_succeeds w cfg tr =
     (smtp_raises w (tr @ [SMTP_SSL (smtp_server cfg) (smtp_port cfg)]) = None
      \<and> smtp_raises w (tr @ [SMTP_SSL (smtp_server cfg) (smtp_port cfg),
                             Login (length tr) (email cfg) (password cfg)]) = None)"

text \<open>
  A server that refuses the first \<open>login\<close> (the second call made to it) and accepts
  everything else.
\<close>

definition flaky_outside :: outside where
  "flaky_outside =
     \<lparr>smtp_raises = (\<lambda>tr. if length tr = 2 then Some (Raised ''SMTPAuthenticationError'') else None),
      file_at = (\<lambda>p. Missing), what_image = (\<lambda>d. None), text_encodable = (\<lambda>t. True),
      header_encodable = (\<lambda>t. True), as_string = (\<lambda>m. Inr ''MSG''), path_name = (\<lambda>p. p)\<rparr>"

text \<open>
  Concrete values: a configuration, a world in which the server accepts everything and no
  file exists, one in which every call to the server raises, a heap with three lists, and
  a sender that holds a client object.
\<close>

definition example_config :: EmailConfig where
  "example_config =
     \<lparr>smtp_server = ''smtp.qq.com'', smtp_port = 465, email = ''me@qq.com'', password = ''secret''\<rparr>"

definition quiet_outside :: outside where
  "quiet_outside =
     \<lparr>smtp_raises = (\<lambda>tr. None), file_at = (\<lambda>p. Missing), what_image = (\<lambda>d. None),
      text_encodable = (\<lambda>t. True), header_encodable = (\<lambda>t. True),
      as_string = (\<lambda>m. Inr ''MSG''), path_name = (\<lambda>p. p)\<rparr>"

definition failing_outside :: outside where
  "failing_outside = quiet_outside\<lparr>smtp_raises := (\<lambda>tr. Some (Raised ''SMTPException''))\<rparr>"

definition example_world :: world where
  "example_world =
     \<lparr>heap = (\<lambda>a. if a = 0 then [''a@x''] else if a = 1 then [''c@x'']
                  else if a = 2 then [''b@x''] else []),
      next_ref = 3, log = [], trace = []\<rparr>"

definition example_sender :: EmailSender where
  "example_sender = (EmailSender_init example_config)\<lparr>smtp_client := Some 0\<rparr>"


text \<open>
  A world with four files: a GIF image, a PDF document, a file named \<open>fake.png\<close> that
  holds no image, and a document that cannot be opened.  The serialisation of a message
  shows the payloads of its parts, one after the other.
\<close>

definition mixed_outside :: outside where
  "mixed_outside =
     quiet_outside
       \<lparr>file_at := (\<lambda>p. if p = ''PHOTO.GIF'' then Content ''GIF89a''
                        else if p = ''report.pdf'' then Content ''%PDF''
                        else if p = ''fake.png'' then Content ''junk''
                        else if p = ''locked.pdf'' then Unreadable (Raised ''PermissionError'')
                        else Missing),
        what_image := (\<lambda>d. if d = ''GIF89a'' then Some ''gif'' else None),
        as_string := (\<lambda>m. Inr (concat (map payload (parts m))))\<rparr>"



text \<open>
  Environments: one with account and credential only, one with a port that is no
  number, one with the port 465 written in fullwidth digits, and one with the port 465
  after the separator character 28.
\<close>

definition good_env :: environ where
  "good_env = [''EMAIL'' \<mapsto> ''me@qq.com'', ''EMAIL_PASSWORD'' \<mapsto> ''secret'']"

definition bad_port_env :: environ where
  "bad_port_env =
     [''EMAIL'' \<mapsto> ''me@qq.com'', ''EMAIL_PASSWORD'' \<mapsto> ''secret'', ''SMTP_PORT'' \<mapsto> ''abc'']"

definition fullwidth_465 :: string where
  "fullwidth_465 = map char_of [239, 188, 148, 239, 188, 150, 239, 188, 149 :: nat]"

definition fullwidth_port_env :: environ where
  "fullwidth_port_env =
     [''EMAIL'' \<mapsto> ''me@qq.com'', ''EMAIL_PASSWORD'' \<mapsto> ''secret'',
      ''SMTP_PORT'' \<mapsto> fullwidth_465]"

definition separator_port_env :: environ where
  "separator_port_env =
     [''EMAIL'' \<mapsto> ''me@qq.com'', ''EMAIL_PASSWORD'' \<mapsto> ''secret'',
      ''SMTP_PORT'' \<mapsto> char_of (28 :: nat) # ''465'']"

text \<open>A world in which every path is a readable GIF file.\<close>

definition image_outside :: outside where
  "image_outside =
     quiet_outside\<lparr>file_at := (\<lambda>p. Content ''GIF89a''), what_image := (\<lambda>d. Some ''gif'')\<rparr>"

section \<open>Properties\<close>

subsection \<open>State and events\<close>

declare connect_loop.simps [simp del]

declare send_loop.simps [simp del]

lemma logger_fields [simp]:
  "heap (logger lv m st) = heap st"
  "next_ref (logger lv m st) = next_ref st"
  "trace (logger lv m st) = trace st"
  "log (logger lv m st) = log st @ [(lv, m)]"
  by (simp_all add: logger_def)

lemma emit_fields [simp]:
  "heap (emit e st) = heap st"
  "next_ref (emit e st) = next_ref st"
  "trace (emit e st) = trace st @ [e]"
  "log (emit e st) = log st"
  by (simp_all add: emit_def)

lemma sleep_fields [simp]:
  "heap (sleep d st) = heap st"
  "next_ref (sleep d st) = next_ref st"
  "trace (sleep d st) = trace st @ [Sleep d]"
  "log (sleep d st) = log st"
  by (simp_all add: sleep_def)

lemma new_object_eq [simp]:
  "new_object st = (next_ref st, st\<lparr>next_ref := next_ref st + 1\<rparr>)"
  by (simp add: new_object_def)

lemma call_smtp_eq [simp]:
  "call_smtp w e st = (smtp_raises w (trace st @ [e]), emit e st)"
  by (simp add: call_smtp_def Let_def)

lemma new_events_append: "trace st1 = trace st @ evs \<Longrightarrow> new_events st st1 = evs"
  by (simp add: new_events_def)

text \<open>One run of the try block of connect.\<close>

lemma connect_try_sender:
  assumes "connect_try w s st = (x, s1, st1)"
  shows "config s1 = config s" "max_retries s1 = max_retries s" "retry_delay s1 = retry_delay s"
  using assms by (auto simp: connect_try_def Let_def split: option.splits)

lemma connect_try_world:
  assumes "connect_try w s st = (x, s1, st1)"
  shows "heap st1 = heap st" "next_ref st1 = next_ref st"
    "log st1 = log st @ (if x = None then [(INFO, Connected)] else [])"
    "\<exists>evs. trace st1 = trace st @ SMTP_SSL (smtp_server (config s)) (smtp_port (config s)) # evs
        \<and> (evs = [] \<or> (\<exists>c. evs = [Login c (email (config s)) (password (config s))]))"
  using assms by (auto simp: connect_try_def Let_def split: option.splits)

subsection \<open>What \<open>connect\<close> leaves unchanged\<close>

lemma close_calls_simps [simp]:
  "close_calls [] = 0"
  "close_calls (evs @ evs1) = close_calls evs + close_calls evs1"
  "close_calls (e # evs) = (if e = Close_called then 1 else 0) + close_calls evs"
  by (simp_all add: close_calls_def)

lemma connect_try_trace:
  assumes "connect_try w s st = (x, s1, st1)"
  shows "\<exists>evs. trace st1 = trace st @ evs \<and> close_calls evs = 0"
  using connect_try_world(4)[OF assms] by auto

lemma connect_loop_frame:
  "connect_loop w n a s st = (r, s1, st1) \<Longrightarrow>
     config s1 = config s \<and> max_retries s1 = max_retries s \<and> retry_delay s1 = retry_delay s
     \<and> heap st1 = heap st \<and> next_ref st1 = next_ref st
     \<and> (\<exists>evs. trace st1 = trace st @ evs \<and> close_calls evs = 0)"
proof (induction w n a s st rule: connect_loop.induct)
  case (1 w n attempt s st)
  obtain x s2 st2 where t: "connect_try w s st = (x, s2, st2)"
    by (cases "connect_try w s st")
  note f = connect_try_sender[OF t] connect_try_world(1,2)[OF t]
  obtain evs2 where e2: "trace st2 = trace st @ evs2" "close_calls evs2 = 0"
    using connect_try_trace[OF t] by blast
  show ?case
  proof (cases "attempt < n")
    case False
    with "1.prems" show ?thesis
      by (subst (asm) connect_loop.simps) simp
  next
    case True
    show ?thesis
    proof (cases x)
      case None
      with "1.prems" True t f e2 show ?thesis
        by (subst (asm) connect_loop.simps) auto
    next
      case (Some e)
      show ?thesis
      proof (cases "attempt < max_retries s2 - 1")
        case False
        with "1.prems" True t f e2 Some show ?thesis
          by (subst (asm) connect_loop.simps) auto
      next
        case again: True
        define st3 where "st3 = sleep (retry_delay s2) (logger ERROR (Connect_failed (attempt + 1) e) st2)"
        have "connect_loop w n (attempt + 1) s2 st3 = (r, s1, st1)"
          using "1.prems" True t Some again
          by (subst (asm) connect_loop.simps) (simp add: st3_def)
        from "1.IH"[OF True t[symmetric] Some refl refl again this[unfolded st3_def]]
        obtain evs where h: "config s1 = config s2" "max_retries s1 = max_retries s2"
          "retry_delay s1 = retry_delay s2" "heap st1 = heap st3" "next_ref st1 = next_ref st3"
          "trace st1 = trace st3 @ evs" "close_calls evs = 0"
          by (auto simp: st3_def)
        have "trace st1 = trace st @ (evs2 @ Sleep (retry_delay s2) # evs)"
          using h(6) e2(1) by (simp add: st3_def)
        moreover have "close_calls (evs2 @ Sleep (retry_delay s2) # evs) = 0"
          using h(7) e2(2) by simp
        ultimately have "\<exists>evs. trace st1 = trace st @ evs \<and> close_calls evs = 0"
          by blast
        then show ?thesis
          using h(1-5) f by (simp add: st3_def)
      qed
    qed
  qed
qed


lemma connect_frame:
  assumes "connect w s st = (r, s1, st1)"
  shows "config s1 = config s" "max_retries s1 = max_retries s" "retry_delay s1 = retry_delay s"
    "heap st1 = heap st" "next_ref st1 = next_ref st"
    "\<exists>evs. trace st1 = trace st @ evs \<and> close_calls evs = 0"
  using connect_loop_frame[OF assms[unfolded connect_def]] by simp_all

lemma same_but_log_refl [simp]: "same_but_log st st"
  by (simp add: same_but_log_def)

lemma same_but_log_logger [simp]:
  "same_but_log (logger lv m st) st1 = same_but_log st st1"
  "same_but_log st (logger lv m st1) = same_but_log st st1"
  by (simp_all add: same_but_log_def)

lemma receivers_value_heap:
  "heap st = heap st1 \<Longrightarrow> receivers_value rv st = receivers_value rv st1"
  by (simp add: receivers_value_def split: receivers_var.splits)

subsection \<open>One attempt to send\<close>

lemma send_try_world:
  assumes "send_try w s rv m st = (x, st1)"
  shows "heap st1 = heap st" "next_ref st1 = next_ref st"
    "trace st1 = trace st
       \<or> (\<exists>c txt. smtp_client s = Some c \<and> as_string w m = Inr txt
            \<and> trace st1 = trace st @ [Sendmail c (email (config s)) (receivers_value rv st) txt])"
  using assms
  by (auto simp: send_try_def split: option.splits sum.splits)

lemma send_try_same_but_log:
  assumes "same_but_log st st'"
  shows "fst (send_try w s rv m st) = fst (send_try w s rv m st')
       \<and> same_but_log (snd (send_try w s rv m st)) (snd (send_try w s rv m st'))"
  using assms receivers_value_heap[of st st' rv]
  by (auto simp: send_try_def same_but_log_def split: option.splits sum.splits)

subsection \<open>The retry loop of send\<close>

lemma send_loop_events:
  "send_loop w n a s rv m st = (r, st1) \<Longrightarrow>
     heap st1 = heap st \<and> next_ref st1 = next_ref st
     \<and> (\<exists>evs. trace st1 = trace st @ evs
          \<and> (\<forall>e\<in>set evs. e = Sleep (retry_delay s)
                \<or> is_sendmail_of w s (receivers_value rv st) m e))"
proof (induction w n a s rv m st rule: send_loop.induct)
  case (1 w n attempt s rv m st)
  obtain x st2 where t: "send_try w s rv m st = (x, st2)"
    by (cases "send_try w s rv m st")
  note f = send_try_world[OF t]
  have ev2: "\<exists>evs. trace st2 = trace st @ evs
          \<and> (\<forall>e\<in>set evs. e = Sleep (retry_delay s)
                \<or> is_sendmail_of w s (receivers_value rv st) m e)"
    using f(3) by (auto simp: is_sendmail_of_def)
  show ?case
  proof (cases "attempt < n")
    case False
    with "1.prems" show ?thesis
      by (subst (asm) send_loop.simps) simp
  next
    case True
    show ?thesis
    proof (cases x)
      case None
      with "1.prems" True t f(1,2) ev2 show ?thesis
        by (subst (asm) send_loop.simps) auto
    next
      case (Some e)
      show ?thesis
      proof (cases "attempt < max_retries s - 1")
        case False
        with "1.prems" True t f(1,2) ev2 Some show ?thesis
          by (subst (asm) send_loop.simps) auto
      next
        case again: True
        define st3 where "st3 = sleep (retry_delay s) (logger ERROR (Send_failed (attempt + 1) e) st2)"
        have "send_loop w n (attempt + 1) s rv m st3 = (r, st1)"
          using "1.prems" True t Some again
          by (subst (asm) send_loop.simps) (simp add: st3_def)
        from "1.IH"[OF True t[symmetric] Some refl again this[unfolded st3_def]]
        obtain evs where h: "heap st1 = heap st3" "next_ref st1 = next_ref st3"
          "trace st1 = trace st3 @ evs"
          "\<forall>e\<in>set evs. e = Sleep (retry_delay s) \<or> is_sendmail_of w s (receivers_value rv st3) m e"
          by (auto simp: st3_def)
        obtain evs2 where h2: "trace st2 = trace st @ evs2"
          "\<forall>e\<in>set evs2. e = Sleep (retry_delay s) \<or> is_sendmail_of w s (receivers_value rv st) m e"
          using ev2 by blast
        have rv: "receivers_value rv st3 = receivers_value rv st"
          by (rule receivers_value_heap) (simp add: st3_def f)
        have "trace st1 = trace st @ (evs2 @ Sleep (retry_delay s) # evs)"
          using h(3) h2(1) by (simp add: st3_def)
        moreover have "\<forall>e\<in>set (evs2 @ Sleep (retry_delay s) # evs).
            e = Sleep (retry_delay s) \<or> is_sendmail_of w s (receivers_value rv st) m e"
          using h(4) h2(2) rv by auto
        ultimately show ?thesis
          using h(1,2) f(1,2) by (auto simp: st3_def)
      qed
    qed
  qed
qed


lemma send_loop_same_but_log:
  "same_but_log st st' \<Longrightarrow>
     fst (send_loop w n a s rv m st) = fst (send_loop w n a s rv m st')
     \<and> same_but_log (snd (send_loop w n a s rv m st)) (snd (send_loop w n a s rv m st'))"
proof (induction w n a s rv m st arbitrary: st' rule: send_loop.induct)
  case (1 w n attempt s rv m st)
  obtain x st2 where t: "send_try w s rv m st = (x, st2)"
    by (cases "send_try w s rv m st")
  obtain x' st2' where t': "send_try w s rv m st' = (x', st2')"
    by (cases "send_try w s rv m st'")
  have xs: "x' = x" and sb: "same_but_log st2 st2'"
    using send_try_same_but_log[OF "1.prems", of w s rv m] t t' by simp_all
  show ?case
  proof (cases "attempt < n")
    case False
    with "1.prems" show ?thesis
      by (subst send_loop.simps, subst (2) send_loop.simps,
          subst (3) send_loop.simps, subst (4) send_loop.simps) simp
  next
    case True
    show ?thesis
    proof (cases x)
      case None
      with True t t' xs sb show ?thesis
        by (subst send_loop.simps, subst (2) send_loop.simps,
            subst (3) send_loop.simps, subst (4) send_loop.simps) simp
    next
      case (Some e)
      show ?thesis
      proof (cases "attempt < max_retries s - 1")
        case False
        with True t t' xs sb Some show ?thesis
          by (subst send_loop.simps, subst (2) send_loop.simps,
              subst (3) send_loop.simps, subst (4) send_loop.simps) simp
      next
        case again: True
        have "same_but_log (sleep (retry_delay s) (logger ERROR (Send_failed (attempt + 1) e) st2))
                (sleep (retry_delay s) (logger ERROR (Send_failed (attempt + 1) e) st2'))"
          using sb by (simp add: same_but_log_def)
        from "1.IH"[OF True t[symmetric] Some refl again this]
        show ?thesis
          using True t t' xs Some again
          by (subst send_loop.simps, subst (2) send_loop.simps,
              subst (3) send_loop.simps, subst (4) send_loop.simps) simp
      qed
    qed
  qed
qed

subsection \<open>Attachments\<close>

lemma add_attachment_message:
  "fst (add_attachment w m p st) =
     (case attachment_part w p of None \<Rightarrow> m | Some part \<Rightarrow> attach m part)"
  by (simp add: add_attachment_def add_attachment_try_def attachment_part_def MIMEImage_def
      MIMEApplication_def add_header_def Let_def split: file_state.splits option.splits sum.splits)

lemma add_attachment_world:
  "same_but_log (snd (add_attachment w m p st)) st"
  by (simp add: add_attachment_def add_attachment_try_def MIMEImage_def
      MIMEApplication_def add_header_def Let_def split: file_state.splits option.splits sum.splits)

lemma add_attachment_same_but_log:
  "same_but_log st st' \<Longrightarrow>
     same_but_log (snd (add_attachment w m p st)) (snd (add_attachment w m' p st'))"
  using add_attachment_world[of w m p st] add_attachment_world[of w m' p st']
  by (simp add: same_but_log_def)

lemma add_attachment_log_grows:
  "\<exists>recs. log (snd (add_attachment w m p st)) = log st @ recs"
  by (simp add: add_attachment_def add_attachment_try_def MIMEImage_def
      MIMEApplication_def add_header_def Let_def split: file_state.splits option.splits sum.splits)

lemma add_attachment_missing:
  "file_at w p = Missing \<Longrightarrow>
     add_attachment w m p st = (m, logger WARNING (Attachment_missing p) st)"
  by (simp add: add_attachment_def add_attachment_try_def)

lemma add_attachments_message:
  "fst (add_attachments w m ps st) = m\<lparr>parts := parts m @ List.map_filter (attachment_part w) ps\<rparr>"
proof (induction ps arbitrary: m st)
  case Nil
  show ?case by simp
next
  case (Cons p ps)
  obtain m1 st1 where a: "add_attachment w m p st = (m1, st1)"
    by (cases "add_attachment w m p st")
  have "m1 = (case attachment_part w p of None \<Rightarrow> m | Some part \<Rightarrow> attach m part)"
    using add_attachment_message[of w m p st] a by simp
  then show ?case
    using Cons.IH[of m1 st1] a
    by (simp add: attach_def split: option.splits)
qed

lemma add_attachments_world:
  "same_but_log (snd (add_attachments w m ps st)) st"
proof (induction ps arbitrary: m st)
  case Nil
  show ?case by simp
next
  case (Cons p ps)
  obtain m1 st1 where a: "add_attachment w m p st = (m1, st1)"
    by (cases "add_attachment w m p st")
  show ?case
    using Cons.IH[of m1 st1] add_attachment_world[of w m p st] a
    by (simp add: same_but_log_def)
qed

lemma add_attachments_log_grows:
  "\<exists>recs. log (snd (add_attachments w m ps st)) = log st @ recs"
proof (induction ps arbitrary: m st)
  case Nil
  show ?case by simp
next
  case (Cons p ps)
  obtain m1 st1 where a: "add_attachment w m p st = (m1, st1)"
    by (cases "add_attachment w m p st")
  show ?case
    using Cons.IH[of m1 st1] add_attachment_log_grows[of w m p st] a by auto
qed

lemma add_attachments_warns:
  "p \<in> set ps \<Longrightarrow> file_at w p = Missing \<Longrightarrow>
     (WARNING, Attachment_missing p) \<in> set (log (snd (add_attachments w m ps st)))"
proof (induction ps arbitrary: m st)
  case Nil
  then show ?case by simp
next
  case (Cons q ps)
  obtain m1 st1 where a: "add_attachment w m q st = (m1, st1)"
    by (cases "add_attachment w m q st")
  show ?case
  proof (cases "p = q")
    case True
    then have "st1 = logger WARNING (Attachment_missing p) st"
      using add_attachment_missing[OF Cons.prems(2), of m st] a by simp
    moreover obtain recs where "log (snd (add_attachments w m1 ps st1)) = log st1 @ recs"
      using add_attachments_log_grows by blast
    ultimately show ?thesis
      using a by simp
  next
    case False
    then have "p \<in> set ps" using Cons.prems(1) by simp
    from Cons.IH[OF this Cons.prems(2), of m1 st1] a show ?thesis by simp
  qed
qed

lemma map_filter_present:
  "List.map_filter (attachment_part w) (filter (\<lambda>p. file_at w p \<noteq> Missing) ps)
     = List.map_filter (attachment_part w) ps"
  by (induction ps) (auto simp: attachment_part_def split: option.splits)

lemma prepare_frame:
  assumes "send_email_prepare s receiver subject sender_name cc bcc st = (m4, rv, st2)"
  shows "next_ref st2 = next_ref st + 1" "log st2 = log st" "trace st2 = trace st"
  using assms
  by (auto simp: send_email_prepare_def Let_def extend_def split: prod.splits if_splits receivers_var.splits)

lemma prepare_heap_Str:
  assumes "send_email_prepare s (Str a) subject sender_name cc bcc st = (m4, rv, st2)"
  shows "heap st2 = heap st"
  using assms
  by (auto simp: send_email_prepare_def Let_def extend_def split: prod.splits if_splits)

lemma prepare_heap_Lst:
  assumes "send_email_prepare s (Lst r) subject sender_name cc bcc st = (m4, rv, st2)"
  shows "heap st2 = (heap st)(r :=
           (if bcc = Some r then (heap st r @ list_at cc st) @ (heap st r @ list_at cc st)
            else (heap st r @ list_at cc st) @ list_at bcc st))"
  using assms
  by (auto simp: send_email_prepare_def Let_def extend_def list_at_def truthy_list_def fun_eq_iff
      split: prod.splits if_splits option.splits)

lemma prepare_recipients:
  assumes "send_email_prepare s receiver subject sender_name cc bcc st = (m4, rv, st2)"
  shows "set (receivers_value rv st2) =
           (case receiver of Str a \<Rightarrow> {a} | Lst r \<Rightarrow> set (heap st r))
           \<union> set (list_at cc st) \<union> set (list_at bcc st)"
  using assms
  by (auto simp: send_email_prepare_def Let_def extend_def list_at_def truthy_list_def receivers_value_def
      split: prod.splits if_splits option.splits receiver.splits)


lemma deliver_text_parts:
  "send_email_deliver w s content attachments html_content m4 rv st2 =
     (case text_parts w m4 content html_content of
        Inl e \<Rightarrow> (Inl e, st2)
      | Inr message6 \<Rightarrow>
          (let (message7, st3) =
                 (case attachments of
                    None \<Rightarrow> (message6, st2)
                  | Some paths \<Rightarrow>
                      if paths \<noteq> [] then add_attachments w message6 paths st2
                      else (message6, st2))
           in case send_loop w (max_retries s) 0 s rv message7 st3 of
                (r, st4) \<Rightarrow> (Inr r, st4)))"
proof (cases "MIMEText w content ''plain'' ''utf-8''")
  case (Inl e)
  then show ?thesis
    by (simp add: send_email_deliver_def text_parts_def)
next
  case (Inr tp)
  show ?thesis
  proof (cases "truthy_str html_content")
    case False
    with Inr show ?thesis
      by (simp add: send_email_deliver_def text_parts_def Let_def)
  next
    case True
    with Inr show ?thesis
      by (cases "MIMEText w (the html_content) ''html'' ''utf-8''")
         (simp_all add: send_email_deliver_def text_parts_def Let_def)
  qed
qed

lemma attach_stage:
  "(case attachments of
      None \<Rightarrow> (m6, st2)
    | Some paths \<Rightarrow> if paths \<noteq> [] then add_attachments w m6 paths st2 else (m6, st2))
   = (m6\<lparr>parts := parts m6 @ List.map_filter (attachment_part w)
                      (case attachments of None \<Rightarrow> [] | Some ps \<Rightarrow> ps)\<rparr>,
      case attachments of None \<Rightarrow> st2 | Some ps \<Rightarrow> snd (add_attachments w m6 ps st2))"
proof (cases attachments)
  case None
  then show ?thesis by simp
next
  case (Some ps)
  show ?thesis
  proof (cases "ps = []")
    case True
    with Some show ?thesis by simp
  next
    case False
    with Some add_attachments_message[of w m6 ps st2] show ?thesis
      by (simp add: prod_eq_iff)
  qed
qed

lemma deliver_cases:
  "(\<exists>e. full_message w m4 content html_content attachments = Inl e
      \<and> send_email_deliver w s content attachments html_content m4 rv st2 = (Inl e, st2))
   \<or> (\<exists>m7 st3. full_message w m4 content html_content attachments = Inr m7
        \<and> same_but_log st3 st2 \<and> (\<exists>recs. log st3 = log st2 @ recs)
        \<and> (\<forall>ps q. attachments = Some ps \<and> q \<in> set ps \<and> file_at w q = Missing
              \<longrightarrow> (WARNING, Attachment_missing q) \<in> set (log st3))
        \<and> send_email_deliver w s content attachments html_content m4 rv st2 =
            (case send_loop w (max_retries s) 0 s rv m7 st3 of (r, st4) \<Rightarrow> (Inr r, st4)))"
proof (cases "text_parts w m4 content html_content")
  case (Inl e)
  then show ?thesis
    by (simp add: deliver_text_parts full_message_def)
next
  case (Inr m6)
  define m7 where "m7 = m6\<lparr>parts := parts m6 @ List.map_filter (attachment_part w)
                      (case attachments of None \<Rightarrow> [] | Some ps \<Rightarrow> ps)\<rparr>"
  define st3 where "st3 = (case attachments of None \<Rightarrow> st2
                           | Some ps \<Rightarrow> snd (add_attachments w m6 ps st2))"
  have f: "full_message w m4 content html_content attachments = Inr m7"
    using Inr by (simp add: full_message_def m7_def)
  have a: "same_but_log st3 st2"
    using add_attachments_world by (simp add: st3_def split: option.splits)
  have b: "\<exists>recs. log st3 = log st2 @ recs"
    using add_attachments_log_grows by (simp add: st3_def split: option.splits)
  have c: "\<forall>ps q. attachments = Some ps \<and> q \<in> set ps \<and> file_at w q = Missing
                  \<longrightarrow> (WARNING, Attachment_missing q) \<in> set (log st3)"
    using add_attachments_warns by (simp add: st3_def)
  have d: "send_email_deliver w s content attachments html_content m4 rv st2 =
            (case send_loop w (max_retries s) 0 s rv m7 st3 of (r, st4) \<Rightarrow> (Inr r, st4))"
    using Inr by (simp add: deliver_text_parts attach_stage m7_def st3_def)
  from f a b c d show ?thesis by blast
qed




subsection \<open>Recipients and the receiver list\<close>

lemma send_email_cases:
  assumes p: "send_email_prepare s receiver subject sender_name cc bcc st = (m4, rv, st2)"
  shows "(\<exists>e. full_message w m4 content html_content attachments = Inl e
            \<and> send_email w s receiver subject content attachments html_content sender_name
                 receiver_name cc bcc st = (Inr (Some False), logger ERROR (Send_error e) st2))
       \<or> (\<exists>m7 st3. full_message w m4 content html_content attachments = Inr m7
            \<and> same_but_log st3 st2 \<and> (\<exists>recs. log st3 = log st2 @ recs)
            \<and> (\<forall>ps q. attachments = Some ps \<and> q \<in> set ps \<and> file_at w q = Missing
                  \<longrightarrow> (WARNING, Attachment_missing q) \<in> set (log st3))
            \<and> send_email w s receiver subject content attachments html_content sender_name
                 receiver_name cc bcc st =
                (case send_loop w (max_retries s) 0 s rv m7 st3 of (r, st4) \<Rightarrow> (Inr r, st4)))"
proof -
  have e: "send_email_try w s receiver subject content attachments html_content sender_name
             receiver_name cc bcc st
           = send_email_deliver w s content attachments html_content m4 rv st2"
    using p by (simp add: send_email_try_def)
  from deliver_cases[of w m4 content html_content attachments s rv st2]
  show ?thesis
  proof (elim disjE exE conjE)
    fix e1
    assume "full_message w m4 content html_content attachments = Inl e1"
      and "send_email_deliver w s content attachments html_content m4 rv st2 = (Inl e1, st2)"
    then show ?thesis
      using e by (simp add: send_email_def)
  next
    fix m7 st3 recs
    assume f: "full_message w m4 content html_content attachments = Inr m7"
      and a: "same_but_log st3 st2" and b: "log st3 = log st2 @ recs"
      and c: "\<forall>ps q. attachments = Some ps \<and> q \<in> set ps \<and> file_at w q = Missing
                  \<longrightarrow> (WARNING, Attachment_missing q) \<in> set (log st3)"
      and d: "send_email_deliver w s content attachments html_content m4 rv st2 =
            (case send_loop w (max_retries s) 0 s rv m7 st3 of (r, st4) \<Rightarrow> (Inr r, st4))"
    have "send_email w s receiver subject content attachments html_content sender_name
                 receiver_name cc bcc st =
                (case send_loop w (max_retries s) 0 s rv m7 st3 of (r, st4) \<Rightarrow> (Inr r, st4))"
      using e d by (simp add: send_email_def split: prod.splits)
    with f a b c show ?thesis by blast
  qed
qed

text \<open>Every call of sendmail that send_email makes: its recipients and its message.\<close>

lemma send_email_sendmails:
  assumes p: "send_email_prepare s receiver subject sender_name cc bcc st = (m4, rv, st2)"
  shows "heap (snd (send_email w s receiver subject content attachments html_content sender_name
                 receiver_name cc bcc st)) = heap st2
     \<and> (\<exists>evs. trace (snd (send_email w s receiver subject content attachments html_content
                 sender_name receiver_name cc bcc st)) = trace st @ evs
          \<and> (\<forall>e\<in>set evs. e = Sleep (retry_delay s)
               \<or> (\<exists>m7. full_message w m4 content html_content attachments = Inr m7
                     \<and> is_sendmail_of w s (receivers_value rv st2) m7 e)))"
proof -
  note fr = prepare_frame[OF p]
  from send_email_cases[OF p, of w content html_content attachments receiver_name]
  show ?thesis
  proof (elim disjE exE conjE)
    fix e1
    assume "send_email w s receiver subject content attachments html_content sender_name
                 receiver_name cc bcc st = (Inr (Some False), logger ERROR (Send_error e1) st2)"
    then show ?thesis using fr by simp
  next
    fix m7 st3 recs
    assume f: "full_message w m4 content html_content attachments = Inr m7"
      and a: "same_but_log st3 st2"
      and d: "send_email w s receiver subject content attachments html_content sender_name
                 receiver_name cc bcc st =
                (case send_loop w (max_retries s) 0 s rv m7 st3 of (r, st4) \<Rightarrow> (Inr r, st4))"
    obtain r st4 where l: "send_loop w (max_retries s) 0 s rv m7 st3 = (r, st4)"
      by (cases "send_loop w (max_retries s) 0 s rv m7 st3")
    from send_loop_events[OF l] obtain evs where
      h: "heap st4 = heap st3" "trace st4 = trace st3 @ evs"
         "\<forall>e\<in>set evs. e = Sleep (retry_delay s) \<or> is_sendmail_of w s (receivers_value rv st3) m7 e"
      by blast
    have rv: "receivers_value rv st3 = receivers_value rv st2"
      using a by (intro receivers_value_heap) (simp add: same_but_log_def)
    show ?thesis
      using d l h a fr f rv by (auto simp: same_but_log_def)
  qed
qed

text \<open>
  Claim C1.  Whenever \<open>send_email\<close> calls \<open>sendmail\<close>, the set of the recipients it
  passes is the union of the primary recipients (the one address of a string, or the
  elements of the list), of the \<open>cc\<close> list and of the \<open>bcc\<close> list, where an absent list
  contributes nothing.  The lists are read in the state in which \<open>send_email\<close> is called.
\<close>

theorem send_email_recipients:
  "\<forall>e \<in> set (new_events st (snd (send_email w s receiver subject content attachments
                   html_content sender_name receiver_name cc bcc st))).
     \<forall>c sender rcpts txt. e = Sendmail c sender rcpts txt \<longrightarrow>
       set rcpts = (case receiver of Str a \<Rightarrow> {a} | Lst r \<Rightarrow> set (heap st r))
                   \<union> (case cc of None \<Rightarrow> {} | Some a \<Rightarrow> set (heap st a))
                   \<union> (case bcc of None \<Rightarrow> {} | Some a \<Rightarrow> set (heap st a))"
proof -
  obtain m4 rv st2 where p: "send_email_prepare s receiver subject sender_name cc bcc st = (m4, rv, st2)"
    by (cases "send_email_prepare s receiver subject sender_name cc bcc st")
  have u: "set (receivers_value rv st2) =
             (case receiver of Str a \<Rightarrow> {a} | Lst r \<Rightarrow> set (heap st r))
             \<union> (case cc of None \<Rightarrow> {} | Some a \<Rightarrow> set (heap st a))
             \<union> (case bcc of None \<Rightarrow> {} | Some a \<Rightarrow> set (heap st a))"
    using prepare_recipients[OF p] by (simp add: list_at_def split: option.splits)
  from send_email_sendmails[OF p, of w content attachments html_content receiver_name]
  obtain evs where
    t: "trace (snd (send_email w s receiver subject content attachments html_content
                 sender_name receiver_name cc bcc st)) = trace st @ evs"
    and ev: "\<forall>e\<in>set evs. e = Sleep (retry_delay s)
               \<or> (\<exists>m7. full_message w m4 content html_content attachments = Inr m7
                     \<and> is_sendmail_of w s (receivers_value rv st2) m7 e)"
    by blast
  have "new_events st (snd (send_email w s receiver subject content attachments html_content
                 sender_name receiver_name cc bcc st)) = evs"
    using t by (rule new_events_append)
  then show ?thesis
    using ev u by (auto simp: is_sendmail_of_def)
qed

text \<open>
  Claim C10.  When \<open>receiver\<close> is a list, \<open>send_email\<close> changes that very list: after
  the call it holds its old elements, then those of \<open>cc\<close>, then those of \<open>bcc\<close> (an
  absent list adds nothing), and no other list has changed.  The equation also covers
  aliasing: when \<open>bcc\<close> is the receiver list itself, what is appended for \<open>bcc\<close> is the
  list as it is after \<open>cc\<close> was appended.  When \<open>receiver\<close> is a string, the heap is as
  before.
\<close>

theorem send_email_mutates_receiver:
  "heap (snd (send_email w s (Lst r) subject content attachments html_content sender_name
                receiver_name cc bcc st))
     = (heap st)(r :=
          (if bcc = Some r
           then (heap st r @ (case cc of None \<Rightarrow> [] | Some a \<Rightarrow> heap st a))
                @ (heap st r @ (case cc of None \<Rightarrow> [] | Some a \<Rightarrow> heap st a))
           else (heap st r @ (case cc of None \<Rightarrow> [] | Some a \<Rightarrow> heap st a))
                @ (case bcc of None \<Rightarrow> [] | Some a \<Rightarrow> heap st a)))
   \<and> heap (snd (send_email w s (Str a) subject content attachments html_content sender_name
                receiver_name cc bcc st)) = heap st"
proof -
  obtain m4 rv st2 where p: "send_email_prepare s (Lst r) subject sender_name cc bcc st = (m4, rv, st2)"
    by (cases "send_email_prepare s (Lst r) subject sender_name cc bcc st")
  obtain m4' rv' st2' where p': "send_email_prepare s (Str a) subject sender_name cc bcc st = (m4', rv', st2')"
    by (cases "send_email_prepare s (Str a) subject sender_name cc bcc st")
  show ?thesis
    using send_email_sendmails[OF p, of w content attachments html_content receiver_name]
      send_email_sendmails[OF p', of w content attachments html_content receiver_name]
      prepare_heap_Lst[OF p] prepare_heap_Str[OF p']
    by (simp add: list_at_def)
qed

subsection \<open>The retries of \<open>connect\<close>\<close>

lemma connect_try_exact:
  assumes "connect_try w s st = (x, s1, st1)"
  shows "(x = None) = attempt_succeeds w (config s) (trace st)"
    and "trace st1 = trace st @ attempt_events w (config s) (trace st)"
  using assms
  by (auto simp: connect_try_def attempt_succeeds_def attempt_events_def Let_def
      split: option.splits)

lemma connect_loop_last:
  assumes "max_retries s = 3"
  shows "connect_loop w 3 2 s st =
     (case connect_try w s st of
        (None, s1, st1) \<Rightarrow> (Some True, s1, st1)
      | (Some e, s1, st1) \<Rightarrow> (Some False, s1, logger ERROR (Connect_failed 3 e) st1))"
proof (cases "connect_try w s st")
  case (fields x s1 st1)
  with assms connect_try_sender(2)[OF fields] show ?thesis
    by (subst connect_loop.simps) (simp split: option.splits)
qed

lemma connect_loop_step:
  assumes "max_retries s = 3" and "0 \<le> a" and "a < 2"
  shows "connect_loop w 3 a s st =
     (case connect_try w s st of
        (None, s1, st1) \<Rightarrow> (Some True, s1, st1)
      | (Some e, s1, st1) \<Rightarrow>
          connect_loop w 3 (a + 1) s1
            (sleep (retry_delay s) (logger ERROR (Connect_failed (a + 1) e) st1)))"
proof (cases "connect_try w s st")
  case (fields x s1 st1)
  with assms connect_try_sender(2,3)[OF fields] show ?thesis
    by (subst connect_loop.simps) (simp split: option.splits)
qed

text \<open>
  Claim C2.  On a sender as the constructor makes it (three tries, a delay of two),
  \<open>connect\<close> makes a first attempt: it calls \<open>SMTP_SSL\<close> and then, unless that raised,
  \<open>login\<close>.  If neither raises, \<open>connect\<close> returns \<open>True\<close> at once.  Otherwise it sleeps
  2 and makes a second attempt, with the same rule, and after a second failure sleeps 2
  again and makes a third.  The third attempt decides: \<open>True\<close> if it succeeds, \<open>False\<close>
  if it fails as well, and no sleep follows it.  So at most three attempts are made,
  \<open>True\<close> is returned exactly when one of them succeeds (and then no further attempt is
  made), and \<open>False\<close> exactly when all three have failed.  Here \<open>t0\<close>, \<open>t1\<close>, \<open>t2\<close> are
  the traces on which the three attempts start.
\<close>

theorem connect_retries:
  assumes m: "max_retries s = 3" and d: "retry_delay s = 2"
  shows "(let cfg = config s;
              t0 = trace st;
              t1 = t0 @ attempt_events w cfg t0 @ [Sleep 2];
              t2 = t1 @ attempt_events w cfg t1 @ [Sleep 2]
          in (fst (connect w s st), trace (snd (snd (connect w s st)))) =
             (if attempt_succeeds w cfg t0 then (Some True, t0 @ attempt_events w cfg t0)
              else if attempt_succeeds w cfg t1 then (Some True, t1 @ attempt_events w cfg t1)
              else if attempt_succeeds w cfg t2 then (Some True, t2 @ attempt_events w cfg t2)
              else (Some False, t2 @ attempt_events w cfg t2)))"
proof -
  let ?cfg = "config s"
  let ?t0 = "trace st"
  let ?t1 = "?t0 @ attempt_events w ?cfg ?t0 @ [Sleep 2]"
  let ?t2 = "?t1 @ attempt_events w ?cfg ?t1 @ [Sleep 2]"
  obtain x1 s1 st1 where t1: "connect_try w s st = (x1, s1, st1)"
    by (cases "connect_try w s st")
  note e1 = connect_try_exact[OF t1]
  note c1 = connect_try_sender[OF t1]
  note u0 = connect_loop_step[OF m, of 0 w st, simplified]
  have goal: "(fst (connect w s st), trace (snd (snd (connect w s st)))) =
             (if attempt_succeeds w ?cfg ?t0 then (Some True, ?t0 @ attempt_events w ?cfg ?t0)
              else if attempt_succeeds w ?cfg ?t1 then (Some True, ?t1 @ attempt_events w ?cfg ?t1)
              else if attempt_succeeds w ?cfg ?t2 then (Some True, ?t2 @ attempt_events w ?cfg ?t2)
              else (Some False, ?t2 @ attempt_events w ?cfg ?t2))"
  proof (cases x1)
    case None
    then have r: "connect w s st = (Some True, s1, st1)"
      using u0 t1 m by (simp add: connect_def)
    have "attempt_succeeds w ?cfg ?t0"
      using e1(1) None by simp
    then show ?thesis
      using r e1(2) by simp
  next
    case (Some x)
    define st1' where "st1' = sleep 2 (logger ERROR (Connect_failed 1 x) st1)"
    have f1: "\<not> attempt_succeeds w ?cfg ?t0"
      using e1(1) Some by simp
    have tr1: "trace st1' = ?t1"
      using e1(2) by (simp add: st1'_def)
    have r1: "connect w s st = connect_loop w 3 1 s1 st1'"
      using u0 t1 Some m d by (simp add: connect_def st1'_def)
    obtain x2 s2 st2 where t2: "connect_try w s1 st1' = (x2, s2, st2)"
      by (cases "connect_try w s1 st1'")
    note e2 = connect_try_exact[OF t2, unfolded c1(1) tr1]
    note c2 = connect_try_sender[OF t2]
    have m1: "max_retries s1 = 3" and d1: "retry_delay s1 = 2"
      using c1 m d by simp_all
    note u1 = connect_loop_step[OF m1, of 1 w st1', simplified]
    show ?thesis
    proof (cases x2)
      case None
      then have r: "connect w s st = (Some True, s2, st2)"
        using r1 u1 t2 by simp
      have "attempt_succeeds w ?cfg ?t1"
        using e2(1) None by simp
      then show ?thesis
        using r f1 e2(2) by simp
    next
      case (Some y)
      define st2' where "st2' = sleep 2 (logger ERROR (Connect_failed 2 y) st2)"
      have f2: "\<not> attempt_succeeds w ?cfg ?t1"
        using e2(1) Some by simp
      have tr2: "trace st2' = ?t2"
        using e2(2) by (simp add: st2'_def)
      have r2: "connect w s st = connect_loop w 3 2 s2 st2'"
        using r1 u1 t2 Some d1 by (simp add: st2'_def)
      obtain x3 s3 st3 where t3: "connect_try w s2 st2' = (x3, s3, st3)"
        by (cases "connect_try w s2 st2'")
      have cfg2: "config s2 = config s"
        using c1(1) c2(1) by simp
      note e3 = connect_try_exact[OF t3, unfolded cfg2 tr2]
      have m2: "max_retries s2 = 3"
        using c2 m1 by simp
      show ?thesis
      proof (cases x3)
        case None
        then have r: "connect w s st = (Some True, s3, st3)"
          using r2 t3 connect_loop_last[OF m2, of w st2'] by simp
        have "attempt_succeeds w ?cfg ?t2"
          using e3(1) None by simp
        then show ?thesis
          using r f1 f2 e3(2) by simp
      next
        case (Some z)
        then have r: "connect w s st = (Some False, s3, logger ERROR (Connect_failed 3 z) st3)"
          using r2 t3 connect_loop_last[OF m2, of w st2'] by simp
        have "\<not> attempt_succeeds w ?cfg ?t2"
          using e3(1) Some by simp
        then show ?thesis
          using r f1 f2 e3(2) by simp
      qed
    qed
  qed
  then show ?thesis
    by (simp add: Let_def)
qed

subsection \<open>The result of \<open>send_email\<close>\<close>







subsection \<open>The message does not depend on \<open>bcc\<close>\<close>




subsection \<open>Missing files and the parts of attachments\<close>






text \<open>
  Claim C6, as the code has it.  What one path adds to the parts of the message, and
  what a list of paths adds: nothing, unless the path names a file that can be read.
  For such a file, when the suffix of its name, in lower case, is one of the four image
  suffixes, the part is an image part of the type that the library tells from the data,
  and there is no part if the library cannot tell the type; with any other suffix the
  part is of type \<open>application/octet-stream\<close>.  The part carries the data of the file and
  one header, \<open>Content-Disposition: attachment\<close> with the name of the file as
  \<open>filename\<close>; if that name cannot be encoded in a header there is no part.
\<close>

theorem attachment_parts_tagged:
  "(let disposition = (\<lambda>p. [(''Content-Disposition'', ''attachment'',
                               [(''filename'', path_name w p)])]);
        parts_of = (\<lambda>p.
          case file_at w p of
            Content data \<Rightarrow>
              if lower (path_suffix w p) \<in> set [''.jpg'', ''.jpeg'', ''.png'', ''.gif'']
              then (case what_image w data of
                      None \<Rightarrow> []
                    | Some t \<Rightarrow>
                        if header_encodable w (path_name w p)
                        then [Part ''image'' t None data (disposition p)] else [])
              else if header_encodable w (path_name w p)
                   then [Part ''application'' ''octet-stream'' None data (disposition p)]
                   else []
          | Missing \<Rightarrow> []
          | Unreadable e \<Rightarrow> [])
    in fst (add_attachment w m p st) = m\<lparr>parts := parts m @ parts_of p\<rparr>
     \<and> fst (add_attachments w m paths st) = m\<lparr>parts := parts m @ concat (map parts_of paths)\<rparr>)"
proof -
  define parts_of where "parts_of = (\<lambda>p.
          case file_at w p of
            Content data \<Rightarrow>
              if lower (path_suffix w p) \<in> set [''.jpg'', ''.jpeg'', ''.png'', ''.gif'']
              then (case what_image w data of
                      None \<Rightarrow> []
                    | Some t \<Rightarrow>
                        if header_encodable w (path_name w p)
                        then [Part ''image'' t None data [(''Content-Disposition'', ''attachment'',
                               [(''filename'', path_name w p)])]] else [])
              else if header_encodable w (path_name w p)
                   then [Part ''application'' ''octet-stream'' None data
                          [(''Content-Disposition'', ''attachment'',
                               [(''filename'', path_name w p)])]]
                   else []
          | Missing \<Rightarrow> []
          | Unreadable e \<Rightarrow> [])"
  have po: "parts_of q = (case attachment_part w q of None \<Rightarrow> [] | Some x \<Rightarrow> [x])" for q
    by (simp add: parts_of_def attachment_part_def image_suffixes_def
        split: file_state.splits option.splits)
  have one: "fst (add_attachment w m p st) = m\<lparr>parts := parts m @ parts_of p\<rparr>"
    by (simp add: add_attachment_message po attach_def split: option.splits)
  have "concat (map parts_of ps) = List.map_filter (attachment_part w) ps" for ps
    by (induction ps) (simp_all add: po List.map_filter_simps split: option.splits)
  then have many: "fst (add_attachments w m paths st)
                     = m\<lparr>parts := parts m @ concat (map parts_of paths)\<rparr>"
    by (simp add: add_attachments_message)
  from one many show ?thesis
    unfolding Let_def parts_of_def by blast
qed

subsection \<open>Closing, the context manager and the configuration\<close>

lemma close_result: "fst (close w s st) = Inr ()"
  by (auto simp: close_def close_try_def Let_def split: option.splits)

lemma close_trace:
  "\<exists>rest. trace (snd (close w s st)) = trace st @ Close_called # rest \<and> close_calls rest = 0"
  by (auto simp: close_def close_try_def Let_def split: option.splits)

text \<open>
  Claim C8.  \<open>close\<close> returns normally, whatever the sender and the state are and whatever
  the server does.  Without a client object it does nothing (only its invocation is
  recorded in the trace): no call to the server, no log record.  With a client object
  whose \<open>quit\<close> raises, the exception ends as an error record in the log.
\<close>

theorem close_never_raises:
  "fst (close w s st) = Inr ()
   \<and> (smtp_client s = None \<longrightarrow> snd (close w s st) = emit Close_called st)
   \<and> (\<forall>c e. smtp_client s = Some c \<and> smtp_raises w (trace st @ [Close_called, Quit c]) = Some e
         \<longrightarrow> snd (close w s st)
             = logger ERROR (Close_error e) (emit (Quit c) (emit Close_called st)))"
  by (auto simp: close_def close_try_def Let_def split: option.splits)

lemma send_email_close_calls:
  "\<exists>evs. trace (snd (send_email w s receiver subject content attachments html_content
                 sender_name receiver_name cc bcc st)) = trace st @ evs
     \<and> close_calls evs = 0"
proof -
  obtain m4 rv st2 where p: "send_email_prepare s receiver subject sender_name cc bcc st = (m4, rv, st2)"
    by (cases "send_email_prepare s receiver subject sender_name cc bcc st")
  from send_email_sendmails[OF p, of w content attachments html_content receiver_name]
  obtain evs where
    t: "trace (snd (send_email w s receiver subject content attachments html_content
                 sender_name receiver_name cc bcc st)) = trace st @ evs"
    and ev: "\<forall>e\<in>set evs. e = Sleep (retry_delay s)
               \<or> (\<exists>m7. full_message w m4 content html_content attachments = Inr m7
                     \<and> is_sendmail_of w s (receivers_value rv st2) m7 e)"
    by blast
  have "\<forall>e\<in>set evs. e \<noteq> Close_called"
    using ev by (auto simp: is_sendmail_of_def)
  then have "close_calls evs = 0"
    by (simp add: close_calls_def filter_empty_conv)
  with t show ?thesis by blast
qed

lemma alloc_trace [simp]: "trace (snd (alloc xs st)) = trace st"
  by (simp add: alloc_def)

lemma main_with_body_trace:
  "\<exists>evs. trace (snd (main_with_body w sender st)) = trace st @ evs \<and> close_calls evs = 0"
proof -
  obtain r st1 where a1: "alloc [''dong.cheng@ythyjx.com''] st = (r, st1)"
    by (cases "alloc [''dong.cheng@ythyjx.com''] st")
  obtain c st2 where a2: "alloc [''support@ythyjx.com''] st1 = (c, st2)"
    by (cases "alloc [''support@ythyjx.com''] st1")
  have t2: "trace st2 = trace st"
    using alloc_trace[of "[''dong.cheng@ythyjx.com'']" st]
      alloc_trace[of "[''support@ythyjx.com'']" st1] a1 a2 by simp
  let ?R = "send_email w sender (Lst r) main_subject main_content
                       (Some [main_attachment]) (Some main_html_content) main_sender_name
                       ''Tom'' (Some c) None st2"
  obtain evs where e: "trace (snd ?R) = trace st2 @ evs" "close_calls evs = 0"
    using send_email_close_calls by blast
  obtain x st3 where R: "?R = (x, st3)"
    by (cases ?R)
  have "trace (snd (main_with_body w sender st)) = trace st3"
    using a1 a2 R by (cases x) (simp_all add: main_with_body_def)
  then show ?thesis
    using e t2 R by auto
qed

lemma with_EmailSender_eq:
  assumes "connect w s st = (r0, s1, st1)" and "body s1 st1 = (r, st2)"
  shows "with_EmailSender w s body st = (r, snd (close w s1 st2))"
  using assms close_result[of w s1 st2]
  by (cases "close w s1 st2")
     (simp add: with_EmailSender_def EmailSender_enter_def EmailSender_exit_def)

text \<open>
  Claim C7.  The \<open>with\<close> statement over a sender calls \<open>close\<close> exactly once, after the
  body, for every body: whatever the body returns, and also when it raises.  In \<open>main\<close>,
  if the configuration can be built (so that the sender is made), the events of the run
  are those of connecting and of sending, which contain no entry into \<open>close\<close>, then the
  one entry into \<open>close\<close>, then what \<open>close\<close> does.  If the configuration cannot be
  built, \<open>close\<close> is not entered.
\<close>

theorem close_called_once:
  "(\<exists>rest. trace (snd (with_EmailSender w s body st))
             = trace (snd (body (fst (snd (connect w s st))) (snd (snd (connect w s st)))))
               @ Close_called # rest
           \<and> close_calls rest = 0)
   \<and> (\<forall>cfg. EmailConfig_init env = Inr cfg \<longrightarrow>
        (\<exists>evs rest. trace (snd (main w env st)) = trace st @ evs @ Close_called # rest
            \<and> close_calls evs = 0 \<and> close_calls rest = 0))
   \<and> ((\<exists>e. EmailConfig_init env = Inl e) \<longrightarrow>
        close_calls (new_events st (snd (main w env st))) = 0)"
proof (intro conjI allI impI)
  obtain r0 s1 st1 where c: "connect w s st = (r0, s1, st1)"
    by (cases "connect w s st")
  obtain r st2 where b: "body s1 st1 = (r, st2)"
    by (cases "body s1 st1")
  show "\<exists>rest. trace (snd (with_EmailSender w s body st))
             = trace (snd (body (fst (snd (connect w s st))) (snd (snd (connect w s st)))))
               @ Close_called # rest
           \<and> close_calls rest = 0"
    using with_EmailSender_eq[where body = body, OF c b] close_trace[of w s1 st2] c b by simp
next
  fix cfg
  assume cfg: "EmailConfig_init env = Inr cfg"
  let ?s = "EmailSender_init cfg"
  obtain r0 s1 st1 where c: "connect w ?s st = (r0, s1, st1)"
    by (cases "connect w ?s st")
  obtain r st2 where b: "main_with_body w s1 st1 = (r, st2)"
    by (cases "main_with_body w s1 st1")
  obtain evs1 where e1: "trace st1 = trace st @ evs1" "close_calls evs1 = 0"
    using connect_frame(6)[OF c] by blast
  obtain evs2 where e2: "trace st2 = trace st1 @ evs2" "close_calls evs2 = 0"
    using main_with_body_trace[of w s1 st1] b by auto
  obtain rest where e3: "trace (snd (close w s1 st2)) = trace st2 @ Close_called # rest"
    "close_calls rest = 0"
    using close_trace by blast
  have "main_try w env st = (r, snd (close w s1 st2))"
    using cfg with_EmailSender_eq[where body = "main_with_body w", OF c b]
    by (simp add: main_try_def)
  then have "trace (snd (main w env st)) = trace (snd (close w s1 st2))"
    by (cases r) (simp_all add: main_def)
  then have "trace (snd (main w env st)) = trace st @ (evs1 @ evs2) @ Close_called # rest"
    using e1 e2 e3 by simp
  moreover have "close_calls (evs1 @ evs2) = 0"
    using e1 e2 by simp
  ultimately show "\<exists>evs rest. trace (snd (main w env st)) = trace st @ evs @ Close_called # rest
            \<and> close_calls evs = 0 \<and> close_calls rest = 0"
    using e3(2) by blast
next
  assume "\<exists>e. EmailConfig_init env = Inl e"
  then show "close_calls (new_events st (snd (main w env st))) = 0"
    by (auto simp: main_def main_try_def new_events_def)
qed

lemma py_int_465: "py_int ''465'' = Some 465"
  by (simp add: py_int_def ascii_int_def py_strip_def py_isspace_def is_digit_def digit_val_def
      Let_def)

lemma py_int_abc: "py_int ''abc'' = None"
  by (simp add: py_int_def ascii_int_def py_strip_def py_isspace_def is_digit_def digit_val_def
      Let_def)

lemma enter_config:
  "EmailSender_enter w s st = (Inr (fst (snd (connect w s st))), snd (snd (connect w s st)))"
  by (simp add: EmailSender_enter_def split_beta)

text \<open>
  Claim C4, as the code has it.  If \<open>EMAIL\<close> or \<open>EMAIL_PASSWORD\<close> is unset or empty, the
  constructor raises \<open>ValueError\<close>, and \<open>main\<close> then makes no call to the server and does
  not sleep.  If both are set and not empty, the outcome depends on \<open>SMTP_PORT\<close> (or on
  its default \<open>465\<close>): when \<open>int\<close> accepts it, the constructor returns the configuration
  with the server (or its default \<open>smtp.qq.com\<close>), that port, the account and the
  credential; when \<open>int\<close> rejects it, the constructor raises the \<open>ValueError\<close> of \<open>int\<close>
  for that text.  With \<open>SMTP_PORT\<close> unset the port is 465.  The methods of the sender
  leave its configuration as it is: \<open>connect\<close> and \<open>__enter__\<close> return the sender with
  the configuration it had, and \<open>send_email\<close> and \<open>close\<close> assign to no attribute, so
  that they return no sender at all.
\<close>

theorem EmailConfig_init_checks:
  "(\<not> truthy_str (env ''EMAIL'') \<or> \<not> truthy_str (env ''EMAIL_PASSWORD'') \<longrightarrow>
      (\<exists>msg. EmailConfig_init env = Inl (ValueError msg))
      \<and> new_events st (snd (main w env st)) = [])
   \<and> (truthy_str (env ''EMAIL'') \<and> truthy_str (env ''EMAIL_PASSWORD'') \<longrightarrow>
        (case py_int (getenv env ''SMTP_PORT'' ''465'') of
           None \<Rightarrow> EmailConfig_init env
                     = Inl (ValueError (Int_message (getenv env ''SMTP_PORT'' ''465'')))
         | Some port \<Rightarrow>
             EmailConfig_init env
               = Inr \<lparr>smtp_server = getenv env ''SMTP_SERVER'' ''smtp.qq.com'', smtp_port = port,
                      email = the (env ''EMAIL''), password = the (env ''EMAIL_PASSWORD'')\<rparr>))
   \<and> (env ''SMTP_PORT'' = None \<longrightarrow> py_int (getenv env ''SMTP_PORT'' ''465'') = Some 465)
   \<and> config (fst (snd (connect w s st))) = config s
   \<and> (\<exists>s1 st1. EmailSender_enter w s st = (Inr s1, st1) \<and> config s1 = config s)"
proof (intro conjI impI)
  assume a: "\<not> truthy_str (env ''EMAIL'') \<or> \<not> truthy_str (env ''EMAIL_PASSWORD'')"
  then show e: "\<exists>msg. EmailConfig_init env = Inl (ValueError msg)"
    by (cases "py_int (getenv env ''SMTP_PORT'' ''465'')")
       (auto simp: EmailConfig_init_def Let_def)
  then show "new_events st (snd (main w env st)) = []"
    by (auto simp: main_def main_try_def new_events_def)
next
  assume "truthy_str (env ''EMAIL'') \<and> truthy_str (env ''EMAIL_PASSWORD'')"
  then show "case py_int (getenv env ''SMTP_PORT'' ''465'') of
           None \<Rightarrow> EmailConfig_init env
                     = Inl (ValueError (Int_message (getenv env ''SMTP_PORT'' ''465'')))
         | Some port \<Rightarrow>
             EmailConfig_init env
               = Inr \<lparr>smtp_server = getenv env ''SMTP_SERVER'' ''smtp.qq.com'', smtp_port = port,
                      email = the (env ''EMAIL''), password = the (env ''EMAIL_PASSWORD'')\<rparr>"
    by (cases "py_int (getenv env ''SMTP_PORT'' ''465'')")
       (auto simp: EmailConfig_init_def Let_def)
next
  assume "env ''SMTP_PORT'' = None"
  then show "py_int (getenv env ''SMTP_PORT'' ''465'') = Some 465"
    by (simp add: getenv_def py_int_465)
next
  obtain r s1 st1 where c: "connect w s st = (r, s1, st1)"
    by (cases "connect w s st")
  from connect_frame(1)[OF c] c show k: "config (fst (snd (connect w s st))) = config s"
    by simp
  show "\<exists>s1 st1. EmailSender_enter w s st = (Inr s1, st1) \<and> config s1 = config s"
    using enter_config[of w s st] k by blast
qed

section \<open>Concrete runs\<close>

lemma example_send_event:
  "trace (snd (send_email quiet_outside example_sender (Lst 0) ''hello'' ''text'' None None [] []
           (Some 1) (Some 2) example_world))
   = [Sendmail 0 ''me@qq.com'' [''a@x'', ''c@x'', ''b@x''] ''MSG'']"
  by (simp add: send_email_def send_email_try_def send_email_prepare_def send_email_deliver_def
      send_loop.simps send_try_def example_sender_def EmailSender_init_def example_config_def
      quiet_outside_def example_world_def MIMEText_def MIMEMultipart_def set_header_def
      attach_def truthy_list_def truthy_str_def extend_def receivers_value_def Let_def)

lemma example_connect_fails:
  "fst (connect failing_outside (EmailSender_init example_config) example_world) = Some False
   \<and> trace (snd (snd (connect failing_outside (EmailSender_init example_config) example_world)))
      = [SMTP_SSL ''smtp.qq.com'' 465, Sleep 2, SMTP_SSL ''smtp.qq.com'' 465, Sleep 2,
         SMTP_SSL ''smtp.qq.com'' 465]"
  by (simp add: connect_def connect_loop.simps connect_try_def EmailSender_init_def
      example_config_def failing_outside_def quiet_outside_def example_world_def Let_def)

theorem connect_retries_witness:
  "max_retries (EmailSender_init example_config) = 3
   \<and> retry_delay (EmailSender_init example_config) = 2
   \<and> fst (connect flaky_outside (EmailSender_init example_config) example_world) = Some True
   \<and> trace (snd (snd (connect flaky_outside (EmailSender_init example_config) example_world)))
       = [SMTP_SSL ''smtp.qq.com'' 465, Login 0 ''me@qq.com'' ''secret'', Sleep 2,
          SMTP_SSL ''smtp.qq.com'' 465, Login 3 ''me@qq.com'' ''secret'']
   \<and> fst (connect failing_outside (EmailSender_init example_config) example_world) = Some False
   \<and> trace (snd (snd (connect failing_outside (EmailSender_init example_config) example_world)))
       = [SMTP_SSL ''smtp.qq.com'' 465, Sleep 2, SMTP_SSL ''smtp.qq.com'' 465, Sleep 2,
          SMTP_SSL ''smtp.qq.com'' 465]"
proof -
  have m: "max_retries (EmailSender_init example_config) = 3"
    and d: "retry_delay (EmailSender_init example_config) = 2"
    by (simp_all add: EmailSender_init_def)
  have c: "config (EmailSender_init example_config) = example_config"
    by (simp add: EmailSender_init_def)
  from connect_retries[OF m d, where st = example_world and w = flaky_outside]
  have a: "fst (connect flaky_outside (EmailSender_init example_config) example_world) = Some True
   \<and> trace (snd (snd (connect flaky_outside (EmailSender_init example_config) example_world)))
       = [SMTP_SSL ''smtp.qq.com'' 465, Login 0 ''me@qq.com'' ''secret'', Sleep 2,
          SMTP_SSL ''smtp.qq.com'' 465, Login 3 ''me@qq.com'' ''secret'']"
    unfolding c
    by (simp add: Let_def attempt_events_def attempt_succeeds_def flaky_outside_def
        example_world_def example_config_def)
  from connect_retries[OF m d, where st = example_world and w = failing_outside]
  have b: "fst (connect failing_outside (EmailSender_init example_config) example_world) = Some False
   \<and> trace (snd (snd (connect failing_outside (EmailSender_init example_config) example_world)))
       = [SMTP_SSL ''smtp.qq.com'' 465, Sleep 2, SMTP_SSL ''smtp.qq.com'' 465, Sleep 2,
          SMTP_SSL ''smtp.qq.com'' 465]"
    unfolding c
    by (simp add: Let_def attempt_events_def attempt_succeeds_def failing_outside_def
        quiet_outside_def example_world_def example_config_def)
  from m d a b show ?thesis by blast
qed

lemma example_world_trace: "trace example_world = []"
  by (simp add: example_world_def)

theorem send_email_recipients_witness:
  "Sendmail 0 ''me@qq.com'' [''a@x'', ''c@x'', ''b@x''] ''MSG''
     \<in> set (new_events example_world
              (snd (send_email quiet_outside example_sender (Lst 0) ''hello'' ''text'' None None
                      [] [] (Some 1) (Some 2) example_world)))
   \<and> set [''a@x'', ''c@x'', ''b@x'']
       = set (heap example_world 0) \<union> set (heap example_world 1) \<union> set (heap example_world 2)"
proof -
  have ev: "Sendmail 0 ''me@qq.com'' [''a@x'', ''c@x'', ''b@x''] ''MSG''
     \<in> set (new_events example_world
              (snd (send_email quiet_outside example_sender (Lst 0) ''hello'' ''text'' None None
                      [] [] (Some 1) (Some 2) example_world)))"
    unfolding new_events_def example_send_event example_world_trace by simp
  from send_email_recipients[rule_format, OF ev refl] ev
  show ?thesis by simp
qed


theorem send_email_mutates_receiver_witness:
  "heap (snd (send_email quiet_outside example_sender (Lst 0) ''hello'' ''text'' None None [] []
                (Some 1) (Some 2) example_world)) 0
     = [''a@x'', ''c@x'', ''b@x'']
   \<and> heap (snd (send_email quiet_outside example_sender (Lst 0) ''hello'' ''text'' None None [] []
                (Some 1) (Some 2) example_world)) 1
     = [''c@x'']"
  using send_email_mutates_receiver[where w = quiet_outside and s = example_sender and r = 0
      and subject = "''hello''" and content = "''text''" and attachments = None
      and html_content = None and sender_name = "[]" and receiver_name = "[]"
      and cc = "Some 1" and bcc = "Some 2" and st = example_world, THEN conjunct1]
  by (simp add: example_world_def)

lemma py_int_fullwidth: "py_int fullwidth_465 = Some 465"
  by (simp add: fullwidth_465_def py_int_def ascii_int_def unicode_decimal_def decimal_zeros_def
      unicode_space_def py_strip_def py_isspace_def is_digit_def digit_val_def Let_def)

lemma py_int_separator: "py_int (char_of (28 :: nat) # ''465'') = None"
  by (simp add: py_int_def ascii_int_def unicode_decimal_def decimal_zeros_def
      unicode_space_def py_strip_def py_isspace_def is_digit_def digit_val_def Let_def)

theorem EmailConfig_bad_port_counterexample:
  "truthy_str (bad_port_env ''EMAIL'') \<and> truthy_str (bad_port_env ''EMAIL_PASSWORD'')
   \<and> EmailConfig_init bad_port_env = Inl (ValueError (Int_message ''abc''))"
  by (simp add: bad_port_env_def EmailConfig_init_def getenv_def truthy_str_def py_int_abc)

theorem EmailConfig_init_checks_witness:
  "\<not> truthy_str (Map.empty ''EMAIL'')
   \<and> (\<exists>msg. EmailConfig_init Map.empty = Inl (ValueError msg))
   \<and> new_events example_world (snd (main quiet_outside Map.empty example_world)) = []
   \<and> truthy_str (good_env ''EMAIL'') \<and> truthy_str (good_env ''EMAIL_PASSWORD'')
   \<and> good_env ''SMTP_PORT'' = None
   \<and> EmailConfig_init good_env = Inr example_config
   \<and> EmailConfig_init fullwidth_port_env = Inr example_config
   \<and> EmailConfig_init separator_port_env
       = Inl (ValueError (Int_message (char_of (28 :: nat) # ''465'')))"
proof -
  have a: "\<not> truthy_str (Map.empty ''EMAIL'')"
    by (simp add: truthy_str_def)
  have b: "truthy_str (good_env ''EMAIL'') \<and> truthy_str (good_env ''EMAIL_PASSWORD'')"
    and c: "good_env ''SMTP_PORT'' = None"
    by (simp_all add: good_env_def truthy_str_def)
  note t1 = EmailConfig_init_checks[where env = Map.empty and st = example_world
      and w = quiet_outside and s = example_sender]
  note t2 = EmailConfig_init_checks[where env = good_env and st = example_world
      and w = quiet_outside and s = example_sender]
  note t3 = EmailConfig_init_checks[where env = fullwidth_port_env and st = example_world
      and w = quiet_outside and s = example_sender, THEN conjunct2, THEN conjunct1]
  note t4 = EmailConfig_init_checks[where env = separator_port_env and st = example_world
      and w = quiet_outside and s = example_sender, THEN conjunct2, THEN conjunct1]
  have p: "py_int (getenv good_env ''SMTP_PORT'' ''465'') = Some 465"
    using t2 c by blast
  have "EmailConfig_init good_env
               = Inr \<lparr>smtp_server = getenv good_env ''SMTP_SERVER'' ''smtp.qq.com'', smtp_port = 465,
                      email = the (good_env ''EMAIL''), password = the (good_env ''EMAIL_PASSWORD'')\<rparr>"
    using t2 b p by simp
  then have d: "EmailConfig_init good_env = Inr example_config"
    by (simp add: good_env_def getenv_def example_config_def)
  have e: "EmailConfig_init fullwidth_port_env = Inr example_config"
    using t3
    by (simp add: fullwidth_port_env_def getenv_def truthy_str_def py_int_fullwidth
        example_config_def)
  have f: "EmailConfig_init separator_port_env
       = Inl (ValueError (Int_message (char_of (28 :: nat) # ''465'')))"
    using t4
    by (simp add: separator_port_env_def getenv_def truthy_str_def py_int_separator)
  from t1 a b c d e f show ?thesis by blast
qed

lemma lower_suffix_upper_case: "lower (suffix_of_name ''PHOTO.GIF'') = ''.gif''"
  by code_simp

lemma lower_suffix_pdf: "lower (suffix_of_name ''report.pdf'') = ''.pdf''"
  by code_simp

lemma lower_suffix_fake: "lower (suffix_of_name ''fake.png'') = ''.png''"
  by code_simp

lemma lower_suffix_locked: "lower (suffix_of_name ''locked.pdf'') = ''.pdf''"
  by code_simp

lemma lower_suffix_missing: "lower (suffix_of_name ''missing.png'') = ''.png''"
  by code_simp




theorem attachment_disposition_counterexample:
  "parts (fst (add_attachment image_outside (MIMEMultipart ''alternative'' 0) ''photo.gif''
                 example_world))
     = [Part ''image'' ''gif'' None ''GIF89a''
          [(''Content-Disposition'', ''attachment'', [(''filename'', ''photo.gif'')])]]
   \<and> ''attachment'' \<noteq> ''inline''"
  by (simp add: add_attachment_def add_attachment_try_def image_outside_def quiet_outside_def
      path_suffix_def suffix_of_name_def rfind_dot_def lower_def lower_char_def
      image_suffixes_def MIMEImage_def add_header_def attach_def MIMEMultipart_def Let_def)

theorem attachment_parts_tagged_witness:
  "fst (add_attachments mixed_outside (MIMEMultipart ''alternative'' 0)
          [''PHOTO.GIF'', ''fake.png'', ''report.pdf'', ''locked.pdf'', ''missing.png'']
          example_world)
     = (MIMEMultipart ''alternative'' 0)
         \<lparr>parts := [Part ''image'' ''gif'' None ''GIF89a''
                      [(''Content-Disposition'', ''attachment'', [(''filename'', ''PHOTO.GIF'')])],
                    Part ''application'' ''octet-stream'' None ''%PDF''
                      [(''Content-Disposition'', ''attachment'', [(''filename'', ''report.pdf'')])]]\<rparr>
   \<and> fst (add_attachment mixed_outside (MIMEMultipart ''alternative'' 0) ''fake.png''
            example_world)
       = MIMEMultipart ''alternative'' 0"
  using attachment_parts_tagged[where w = mixed_outside and m = "MIMEMultipart ''alternative'' 0"
      and p = "''fake.png''" and st = example_world
      and paths = "[''PHOTO.GIF'', ''fake.png'', ''report.pdf'', ''locked.pdf'', ''missing.png'']"]
  by (simp add: Let_def mixed_outside_def quiet_outside_def path_suffix_def
      lower_suffix_upper_case lower_suffix_pdf lower_suffix_fake lower_suffix_locked
      lower_suffix_missing MIMEMultipart_def)

theorem close_called_once_witness:
  "EmailConfig_init good_env = Inr example_config
   \<and> (\<exists>evs rest. trace (snd (main quiet_outside good_env example_world))
                    = trace example_world @ evs @ Close_called # rest
            \<and> close_calls evs = 0 \<and> close_calls rest = 0)"
proof -
  have c: "EmailConfig_init good_env = Inr example_config"
    by (simp add: good_env_def EmailConfig_init_def getenv_def truthy_str_def py_int_465
        example_config_def)
  from close_called_once[where env = good_env and w = quiet_outside and st = example_world
      and s = example_sender and body = "main_with_body quiet_outside",
      THEN conjunct2, THEN conjunct1, rule_format, OF c] c
  show ?thesis by blast
qed

theorem close_never_raises_witness:
  "smtp_client (EmailSender_init example_config) = None
   \<and> close quiet_outside (EmailSender_init example_config) example_world
       = (Inr (), emit Close_called example_world)
   \<and> smtp_client example_sender = Some 0
   \<and> smtp_raises failing_outside (trace example_world @ [Close_called, Quit 0])
       = Some (Raised ''SMTPException'')
   \<and> close failing_outside example_sender example_world
       = (Inr (), logger ERROR (Close_error (Raised ''SMTPException''))
                    (emit (Quit 0) (emit Close_called example_world)))"
proof -
  have a: "smtp_client (EmailSender_init example_config) = None"
    by (simp add: EmailSender_init_def)
  have b: "smtp_client example_sender = Some 0"
    by (simp add: example_sender_def)
  have c: "smtp_raises failing_outside (trace example_world @ [Close_called, Quit 0])
       = Some (Raised ''SMTPException'')"
    by (simp add: failing_outside_def)
  from close_never_raises[of quiet_outside "EmailSender_init example_config" example_world] a
  have d: "close quiet_outside (EmailSender_init example_config) example_world
       = (Inr (), emit Close_called example_world)"
    by (simp add: prod_eq_iff)
  from close_never_raises[of failing_outside example_sender example_world] b c
  have e: "close failing_outside example_sender example_world
       = (Inr (), logger ERROR (Close_error (Raised ''SMTPException''))
                    (emit (Quit 0) (emit Close_called example_world)))"
    by (simp add: prod_eq_iff)
  from a b c d e show ?thesis by blast
qed





end
